theory Spec2Isabelle
  imports Complex_Main "HOL-Library.Word"
begin

unbundle bit_operations_syntax

section \<open>Python values used by hwctrl.py\<close>

text \<open>
  Exceptions are values.  Only the class matters to the code: every handler catches
  \<open>Exception\<close> as a whole.
\<close>

datatype exn = IndexError | ValueError | OverflowError | OSError | KeyError | GPIOError

text \<open>
  A Python \<open>float\<close>: a finite value, or one of the three special values that
  \<open>float(str)\<close> can return (\<open>float('inf')\<close>, \<open>float('-inf')\<close>, \<open>float('nan')\<close>).
  Finite values are exact rationals: rounding is not part of this model, the control flow
  that the special values cause is.
\<close>

datatype pyfloat = Fin rat | PInf | NInf | NaN

text \<open>\<open>a < b\<close> on floats: every comparison with NaN is false.\<close>

fun flt :: "pyfloat \<Rightarrow> pyfloat \<Rightarrow> bool" where
  "flt NaN _ = False"
| "flt _ NaN = False"
| "flt (Fin a) (Fin b) = (a < b)"
| "flt PInf _ = False"
| "flt _ NInf = False"
| "flt (Fin a) PInf = True"
| "flt NInf (Fin b) = True"
| "flt NInf PInf = True"

text \<open>
  The builtins \<open>min(a, b)\<close> and \<open>max(a, b)\<close>: the first argument is kept unless the
  second is strictly smaller (greater).
\<close>

definition py_min :: "pyfloat \<Rightarrow> pyfloat \<Rightarrow> pyfloat" where
  "py_min a b = (if flt b a then b else a)"

definition py_max :: "pyfloat \<Rightarrow> pyfloat \<Rightarrow> pyfloat" where
  "py_max a b = (if flt a b then b else a)"

text \<open>Multiplication of a float by a positive finite constant \<open>c\<close>.\<close>

fun fscale :: "rat \<Rightarrow> pyfloat \<Rightarrow> pyfloat" where
  "fscale c (Fin r) = Fin (c * r)"
| "fscale c x = x"

text \<open>\<open>int(x)\<close> truncates towards zero and raises on the special values.\<close>

fun py_int_of_float :: "pyfloat \<Rightarrow> exn + int" where
  "py_int_of_float (Fin r) = Inr (if 0 \<le> r then \<lfloor>r\<rfloor> else \<lceil>r\<rceil>)"
| "py_int_of_float NaN = Inl ValueError"
| "py_int_of_float _ = Inl OverflowError"

text \<open>\<open>str(n)\<close> of an integer: its decimal digits, with a minus sign when negative.\<close>

definition digit_char :: "nat \<Rightarrow> char" where
  "digit_char d = ''0123456789'' ! d"

fun str_nat :: "nat \<Rightarrow> string" where
  "str_nat n = (if n < 10 then [digit_char n] else str_nat (n div 10) @ [digit_char (n mod 10)])"

declare str_nat.simps [simp del]

definition str_int :: "int \<Rightarrow> string" where
  "str_int i = (if i < 0 then CHR ''-'' # str_nat (nat (- i)) else str_nat (nat i))"

text \<open>\<open>xs[i]\<close> for a constant index \<open>i \<ge> 0\<close>: IndexError when out of range.\<close>

definition item :: "'a list \<Rightarrow> nat \<Rightarrow> exn + 'a" where
  "item xs i = (if i < length xs then Inr (xs ! i) else Inl IndexError)"

text \<open>
  The library functions whose behaviour is not defined by this repository are parameters:
  \<^item> \<open>py_float\<close> is \<open>float(str)\<close>, \<open>None\<close> when it raises ValueError;
  \<^item> \<open>py_int\<close> is \<open>int(str)\<close>, \<open>None\<close> when it raises ValueError;
  \<^item> \<open>wait_raises t\<close> tells whether \<open>threading.Event.wait(t)\<close> on an event that is not
    set rejects the timeout \<open>t\<close> (OverflowError for a timeout that is too large).
\<close>

record pylib =
  py_float :: "string \<Rightarrow> pyfloat option"
  py_int :: "string \<Rightarrow> int option"
  wait_raises :: "pyfloat \<Rightarrow> bool"

section \<open>Commands and responses\<close>

datatype RaspiCarMoveOp = FORWARD | BACKWARD | CLOCKWISE | COUNTERCLOCKWISE | STOP

text \<open>\<open>RaspiCarMoveOp(str)\<close>: the member with that value, ValueError otherwise.\<close>

definition RaspiCarMoveOp_of :: "string \<Rightarrow> exn + RaspiCarMoveOp" where
  "RaspiCarMoveOp_of v =
     (if v = ''fwd'' then Inr FORWARD
      else if v = ''bwd'' then Inr BACKWARD
      else if v = ''cw'' then Inr CLOCKWISE
      else if v = ''ccw'' then Inr COUNTERCLOCKWISE
      else if v = ''stop'' then Inr STOP
      else Inl ValueError)"

record HwCtrlCmd =
  cmd_no :: string
  opcode :: string
  params :: "string list"

record HwCtrlResp =
  resp_cmd_no :: string
  resp_opcode :: string
  is_successful :: bool
  data :: "string list"

text \<open>The constructor \<open>HwCtrlResp(cmd_no, opcode, success, data = [])\<close>.\<close>

definition mk_resp :: "string \<Rightarrow> string \<Rightarrow> bool \<Rightarrow> string list \<Rightarrow> HwCtrlResp" where
  "mk_resp n opc ok d = \<lparr>resp_cmd_no = n, resp_opcode = opc, is_successful = ok, data = d\<rparr>"

text \<open>\<open>HwCtrlResp.__str__\<close>: the response line.\<close>

definition str_bool :: "bool \<Rightarrow> string" where
  "str_bool b = (if b then ''True'' else ''False'')"

definition resp_str :: "HwCtrlResp \<Rightarrow> string" where
  "resp_str r =
     foldl (\<lambda>res val. res @ '','' @ val)
       (resp_cmd_no r @ '','' @ str_bool (is_successful r) @ '','' @ resp_opcode r) (data r)"

section \<open>The hardware and the processor state\<close>

datatype led_color = Red | Green | Blue
datatype eye_side = LeftEye | RightEye

text \<open>
  Every call that reaches a device is appended to a trace, so that "no motor action" and
  "no LED turned on or off" are statements about calls, not only about output levels.
\<close>

datatype hw_call =
    PwmValue pyfloat
  | LhsPhase bool
  | RhsPhase bool
  | LedSet eye_side led_color bool
  | WriteByte int int
  | WriteByteData int int int
  | ReadBlock int int int
  | BusClose
  | Sleep rat
  | Wait nat pyfloat

text \<open>
  The answer of the two-wire bus to one transaction: the bytes read (ignored for a write),
  or a transport error (OSError).
\<close>

datatype bus_reply = Ack "int list" | Nack

record MoveCtrl =
  pwm :: pyfloat
  lhs_phase :: bool
  rhs_phase :: bool

record eye_leds =
  red :: bool
  green :: bool
  blue :: bool

text \<open>
  The fields of \<open>CmdProcessor\<close>, with the devices behind them:
  \<^item> \<open>i2c_replies\<close> is what the bus will answer to the coming transactions, in order;
    when it is used up, a transaction fails;  \<open>i2c_closed\<close> is set by \<open>SMBus.close\<close>;
  \<^item> a lock is \<open>True\<close> while held;
  \<^item> \<open>events\<close> is the store of all \<open>threading.Event\<close> objects created so far (the flag
    of each), \<open>move_event\<close> and \<open>get_color_event\<close> refer to it by index;
  \<^item> \<open>activeCmds\<close> is a set of command objects, compared by identity: the identities;
  \<^item> \<open>motor_fault\<close> and \<open>led_fault\<close>: the motor pins (the lamp pins) raise on access.
\<close>

record CmdProcessor =
  i2c_replies :: "bus_reply list"
  i2c_closed :: bool
  i2c_lock :: bool
  color_sensor_lock :: bool
  move_lock :: bool
  num_times_moved :: int
  move_event :: "nat option"
  get_color_event :: "nat option"
  events :: "bool list"
  activeCmds :: "nat set"
  move_ctrl :: MoveCtrl
  right_eye :: eye_leds
  left_eye :: eye_leds
  motor_fault :: bool
  led_fault :: bool
  trace :: "hw_call list"

definition COLOR_SENSOR_I2C_ADDR :: int where
  "COLOR_SENSOR_I2C_ADDR = 0x2A"

definition DISTANCE_SENSOR_I2C_ADDR :: int where
  "DISTANCE_SENSOR_I2C_ADDR = 0x57"

text \<open>One bus transaction \<open>c\<close>: it raises on a closed bus, on a used-up or failing reply.\<close>

definition bus_xfer :: "hw_call \<Rightarrow> CmdProcessor \<Rightarrow> (exn + int list) \<times> CmdProcessor" where
  "bus_xfer c s =
     (if i2c_closed s then (Inl OSError, s)
      else case i2c_replies s of
        [] \<Rightarrow> (Inl OSError, s)
      | Nack # rs \<Rightarrow> (Inl OSError, s\<lparr>i2c_replies := rs, trace := trace s @ [c]\<rparr>)
      | Ack bs # rs \<Rightarrow> (Inr bs, s\<lparr>i2c_replies := rs, trace := trace s @ [c]\<rparr>))"

text \<open>\<open>time.sleep\<close> inside a critical section.\<close>

definition sleep :: "rat \<Rightarrow> CmdProcessor \<Rightarrow> CmdProcessor" where
  "sleep t s = s\<lparr>trace := trace s @ [Sleep t]\<rparr>"

section \<open>measure-distance\<close>

text \<open>
  The body of the \<open>try\<close> of \<open>__measure_distance\<close> after the lock is taken: the write, the
  settle delay, the read of three bytes and the decoding.
\<close>

definition measure_distance_body :: "CmdProcessor \<Rightarrow> (exn + int) \<times> CmdProcessor" where
  "measure_distance_body s =
     (case bus_xfer (WriteByte DISTANCE_SENSOR_I2C_ADDR 1) s of
        (Inl e, s1) \<Rightarrow> (Inl e, s1)
      | (Inr _, s1) \<Rightarrow>
          (case bus_xfer (ReadBlock DISTANCE_SENSOR_I2C_ADDR 0 3) (sleep (1/5) s1) of
             (Inl e, s2) \<Rightarrow> (Inl e, s2)
           | (Inr d, s2) \<Rightarrow>
               (case (item d 0, item d 1, item d 2) of
                  (Inr d0, Inr d1, Inr d2) \<Rightarrow> (Inr (push_bit 16 d0 OR push_bit 8 d1 OR d2), s2)
                | _ \<Rightarrow> (Inl IndexError, s2))))"

definition measure_distance :: "HwCtrlCmd \<Rightarrow> CmdProcessor \<Rightarrow> (exn + HwCtrlResp) \<times> CmdProcessor" where
  "measure_distance cmd s =
     (case measure_distance_body (s\<lparr>i2c_lock := True\<rparr>) of
        (Inr distance, s1) \<Rightarrow>
          (Inr (mk_resp (cmd_no cmd) (opcode cmd) True [str_int distance]), s1\<lparr>i2c_lock := False\<rparr>)
      | (Inl e, s1) \<Rightarrow>
          (Inr (mk_resp (cmd_no cmd) (opcode cmd) False []), s1\<lparr>i2c_lock := False\<rparr>))"

section \<open>Cancellable waits\<close>

text \<open>\<open>threading.Event()\<close>: a new event, not set.\<close>

definition new_event :: "CmdProcessor \<Rightarrow> nat \<times> CmdProcessor" where
  "new_event s = (length (events s), s\<lparr>events := events s @ [False]\<rparr>)"

definition event_set :: "nat \<Rightarrow> CmdProcessor \<Rightarrow> CmdProcessor" where
  "event_set ev s = s\<lparr>events := (events s)[ev := True]\<rparr>"

definition is_set :: "nat \<Rightarrow> CmdProcessor \<Rightarrow> bool" where
  "is_set ev s = (ev < length (events s) \<and> events s ! ev)"

text \<open>
  \<open>event.wait(t)\<close>, called outside every lock.  An event that is already set returns at
  once.  Otherwise the timeout is checked (a timeout the library rejects raises), the
  thread blocks, and what the other threads do to the processor until it wakes up is the
  state transformer \<open>during\<close>.
\<close>

definition event_wait ::
  "pylib \<Rightarrow> (CmdProcessor \<Rightarrow> CmdProcessor) \<Rightarrow> nat \<Rightarrow> pyfloat \<Rightarrow> CmdProcessor
     \<Rightarrow> (exn + unit) \<times> CmdProcessor" where
  "event_wait lib during ev t s =
     (if is_set ev s then (Inr (), s)
      else if wait_raises lib t then (Inl OverflowError, s)
      else (Inr (), during (s\<lparr>trace := trace s @ [Wait ev t]\<rparr>)))"

definition cancel_move :: "CmdProcessor \<Rightarrow> CmdProcessor" where
  "cancel_move s = (case move_event s of None \<Rightarrow> s | Some ev \<Rightarrow> event_set ev s)"

definition cancel_color_detection :: "CmdProcessor \<Rightarrow> CmdProcessor" where
  "cancel_color_detection s = (case get_color_event s of None \<Rightarrow> s | Some ev \<Rightarrow> event_set ev s)"

section \<open>MoveCtrl\<close>

definition clamp_speed :: "pyfloat \<Rightarrow> pyfloat" where
  "clamp_speed speed = py_min (Fin 1) (py_max speed (Fin 0))"

text \<open>The four motions: both phase pins, then the duty cycle.\<close>

definition drive :: "bool \<Rightarrow> bool \<Rightarrow> pyfloat \<Rightarrow> CmdProcessor \<Rightarrow> (exn + unit) \<times> CmdProcessor" where
  "drive l r speed s =
     (if motor_fault s then (Inl GPIOError, s)
      else let v = clamp_speed speed in
        (Inr (), s\<lparr>move_ctrl := \<lparr>pwm = v, lhs_phase = l, rhs_phase = r\<rparr>,
                   trace := trace s @ [LhsPhase l, RhsPhase r, PwmValue v]\<rparr>))"

definition MoveCtrl_forward :: "pyfloat \<Rightarrow> CmdProcessor \<Rightarrow> (exn + unit) \<times> CmdProcessor" where
  "MoveCtrl_forward speed s = drive False False speed s"

definition MoveCtrl_backward :: "pyfloat \<Rightarrow> CmdProcessor \<Rightarrow> (exn + unit) \<times> CmdProcessor" where
  "MoveCtrl_backward speed s = drive True True speed s"

definition MoveCtrl_clockwise :: "pyfloat \<Rightarrow> CmdProcessor \<Rightarrow> (exn + unit) \<times> CmdProcessor" where
  "MoveCtrl_clockwise speed s = drive False True speed s"

definition MoveCtrl_counter_clockwise :: "pyfloat \<Rightarrow> CmdProcessor \<Rightarrow> (exn + unit) \<times> CmdProcessor" where
  "MoveCtrl_counter_clockwise speed s = drive True False speed s"

definition MoveCtrl_stop :: "CmdProcessor \<Rightarrow> (exn + unit) \<times> CmdProcessor" where
  "MoveCtrl_stop s =
     (if motor_fault s then (Inl GPIOError, s)
      else (Inr (), s\<lparr>move_ctrl := (move_ctrl s)\<lparr>pwm := Fin 0\<rparr>,
                      trace := trace s @ [PwmValue (Fin 0)]\<rparr>))"

fun MoveCtrl_move :: "RaspiCarMoveOp \<Rightarrow> pyfloat \<Rightarrow> CmdProcessor \<Rightarrow> (exn + unit) \<times> CmdProcessor" where
  "MoveCtrl_move FORWARD speed s = MoveCtrl_forward speed s"
| "MoveCtrl_move BACKWARD speed s = MoveCtrl_backward speed s"
| "MoveCtrl_move CLOCKWISE speed s = MoveCtrl_clockwise speed s"
| "MoveCtrl_move COUNTERCLOCKWISE speed s = MoveCtrl_counter_clockwise speed s"
| "MoveCtrl_move STOP speed s = MoveCtrl_stop s"

section \<open>move\<close>

text \<open>
  The first part of \<open>__move_raspicar\<close>: the new event and the first \<open>try\<close> with its
  \<open>except\<close> and \<open>finally\<close>.  \<open>None\<close> is the \<open>return False\<close> of the \<open>except\<close> clause;
  otherwise the captured value of the generation counter and the event to wait on.
\<close>

definition move_begin ::
  "RaspiCarMoveOp \<Rightarrow> pyfloat \<Rightarrow> CmdProcessor \<Rightarrow> (int \<times> nat) option \<times> CmdProcessor" where
  "move_begin move_op speed s =
     (case new_event s of (event, s0) \<Rightarrow>
        (let s1 = s0\<lparr>move_lock := True\<rparr>;
             s2 = s1\<lparr>num_times_moved := num_times_moved s1 + 1\<rparr>;
             captured = num_times_moved s2
         in case MoveCtrl_move move_op speed s2 of
              (Inl e, s3) \<Rightarrow> (None, s3\<lparr>move_lock := False\<rparr>)
            | (Inr _, s3) \<Rightarrow>
                (Some (captured, event),
                 (cancel_move s3)\<lparr>move_event := Some event, move_lock := False\<rparr>)))"

text \<open>
  The second critical section (the second \<open>try\<close> with its \<open>except\<close> and \<open>finally\<close>, and
  the final \<open>return True\<close>).
\<close>

definition move_finish :: "int \<Rightarrow> CmdProcessor \<Rightarrow> (exn + bool) \<times> CmdProcessor" where
  "move_finish captured s =
     (let s1 = s\<lparr>move_lock := True\<rparr> in
      if captured \<noteq> num_times_moved s1 then (Inr True, s1\<lparr>move_lock := False\<rparr>)
      else case MoveCtrl_stop s1 of
             (Inl e, s2) \<Rightarrow> (Inr False, s2\<lparr>move_lock := False\<rparr>)
           | (Inr _, s2) \<Rightarrow> (Inr True, s2\<lparr>move_lock := False\<rparr>))"

definition move_raspicar ::
  "pylib \<Rightarrow> (CmdProcessor \<Rightarrow> CmdProcessor) \<Rightarrow> RaspiCarMoveOp \<Rightarrow> pyfloat \<Rightarrow> pyfloat
     \<Rightarrow> CmdProcessor \<Rightarrow> (exn + bool) \<times> CmdProcessor" where
  "move_raspicar lib during move_op speed time s =
     (case move_begin move_op speed s of
        (None, s1) \<Rightarrow> (Inr False, s1)
      | (Some (captured, event), s1) \<Rightarrow>
          (case event_wait lib during event time s1 of
             (Inl e, s2) \<Rightarrow> (Inl e, s2)
           | (Inr _, s2) \<Rightarrow> move_finish captured s2))"

definition stop_raspicar :: "CmdProcessor \<Rightarrow> (exn + bool) \<times> CmdProcessor" where
  "stop_raspicar s =
     (let s1 = s\<lparr>move_lock := True\<rparr>;
          s2 = s1\<lparr>num_times_moved := num_times_moved s1 + 1\<rparr>
      in case MoveCtrl_stop s2 of
           (Inl e, s3) \<Rightarrow> (Inr False, s3\<lparr>move_lock := False\<rparr>)
         | (Inr _, s3) \<Rightarrow> (Inr True, (cancel_move s3)\<lparr>move_lock := False\<rparr>))"

text \<open>\<open>float(params[i])\<close> and \<open>int(params[i])\<close>.\<close>

definition float_param :: "pylib \<Rightarrow> string list \<Rightarrow> nat \<Rightarrow> exn + pyfloat" where
  "float_param lib ps i =
     (case item ps i of
        Inl e \<Rightarrow> Inl e
      | Inr p \<Rightarrow> (case py_float lib p of None \<Rightarrow> Inl ValueError | Some x \<Rightarrow> Inr x))"

definition int_param :: "pylib \<Rightarrow> string list \<Rightarrow> nat \<Rightarrow> exn + int" where
  "int_param lib ps i =
     (case item ps i of
        Inl e \<Rightarrow> Inl e
      | Inr p \<Rightarrow> (case py_int lib p of None \<Rightarrow> Inl ValueError | Some x \<Rightarrow> Inr x))"

text \<open>The body of the \<open>try\<close> of \<open>__move\<close>: its value is what \<open>success\<close> is set to.\<close>

definition move_body ::
  "pylib \<Rightarrow> (CmdProcessor \<Rightarrow> CmdProcessor) \<Rightarrow> HwCtrlCmd \<Rightarrow> CmdProcessor
     \<Rightarrow> (exn + bool) \<times> CmdProcessor" where
  "move_body lib during cmd s =
     (case item (params cmd) 0 of
        Inl e \<Rightarrow> (Inl e, s)
      | Inr p0 \<Rightarrow>
          (case RaspiCarMoveOp_of p0 of
             Inl e \<Rightarrow> (Inl e, s)
           | Inr move_op \<Rightarrow>
               if move_op = STOP then stop_raspicar s
               else (case float_param lib (params cmd) 1 of
                       Inl e \<Rightarrow> (Inl e, s)
                     | Inr speed \<Rightarrow>
                         (case float_param lib (params cmd) 2 of
                            Inl e \<Rightarrow> (Inl e, s)
                          | Inr time \<Rightarrow> move_raspicar lib during move_op speed time s))))"

definition move ::
  "pylib \<Rightarrow> (CmdProcessor \<Rightarrow> CmdProcessor) \<Rightarrow> HwCtrlCmd \<Rightarrow> CmdProcessor
     \<Rightarrow> (exn + HwCtrlResp) \<times> CmdProcessor" where
  "move lib during cmd s =
     (case move_body lib during cmd s of
        (Inr success, s1) \<Rightarrow> (Inr (mk_resp (cmd_no cmd) (opcode cmd) success []), s1)
      | (Inl e, s1) \<Rightarrow> (Inr (mk_resp (cmd_no cmd) (opcode cmd) False []), s1))"

section \<open>detect-color\<close>

text \<open>
  The clamped exposure time in microseconds and the integration-time register value.
  Both are computed on exact rationals; where the binary doubles of the code round, the
  truncated register value can differ by one from the value here.  The values for 11 and
  12 seconds (62857) are the same in both.
\<close>

definition exp_time_us :: "pyfloat \<Rightarrow> pyfloat" where
  "exp_time_us exp_time = fscale 1000000 (py_max (Fin 0) (py_min exp_time (Fin 11)))"

definition integ_val_of :: "pyfloat \<Rightarrow> exn + int" where
  "integ_val_of exp_time = py_int_of_float (fscale (1 / 175) (exp_time_us exp_time))"

text \<open>
  The timeout handed to \<open>event.wait\<close>: \<open>(4 * exp_time) * 1.05\<close>, as an exact rational
  (the double of the code differs from it by rounding only).
\<close>

definition color_wait_time :: "pyfloat \<Rightarrow> pyfloat" where
  "color_wait_time exp_time = fscale (21 / 20) (fscale 4 exp_time)"

text \<open>The body of the first \<open>try\<close> of \<open>__get_color_sensor_val\<close>, the bus lock held.\<close>

definition color_config :: "int \<Rightarrow> nat \<Rightarrow> CmdProcessor \<Rightarrow> (exn + unit) \<times> CmdProcessor" where
  "color_config integ_val event s =
     (case bus_xfer (WriteByteData COLOR_SENSOR_I2C_ADDR 0 0x8C) s of
        (Inl e, s1) \<Rightarrow> (Inl e, s1)
      | (Inr _, s1) \<Rightarrow>
     (case bus_xfer (WriteByteData COLOR_SENSOR_I2C_ADDR 1 (drop_bit 8 integ_val)) s1 of
        (Inl e, s2) \<Rightarrow> (Inl e, s2)
      | (Inr _, s2) \<Rightarrow>
     (case bus_xfer (WriteByteData COLOR_SENSOR_I2C_ADDR 2 (integ_val AND 0xFF)) s2 of
        (Inl e, s3) \<Rightarrow> (Inl e, s3)
      | (Inr _, s3) \<Rightarrow>
     (case bus_xfer (WriteByteData COLOR_SENSOR_I2C_ADDR 0 0x0C) s3 of
        (Inl e, s4) \<Rightarrow> (Inl e, s4)
      | (Inr _, s4) \<Rightarrow> (Inr (), s4\<lparr>get_color_event := Some event\<rparr>)))))"

text \<open>The list built by the final \<open>return\<close>: three big-endian 16-bit values.\<close>

definition decode_colors :: "int list \<Rightarrow> exn + int list" where
  "decode_colors color_vals =
     (case (item color_vals 0, item color_vals 1, item color_vals 2,
            item color_vals 3, item color_vals 4, item color_vals 5) of
        (Inr c0, Inr c1, Inr c2, Inr c3, Inr c4, Inr c5) \<Rightarrow>
          Inr [push_bit 8 c0 OR c1, push_bit 8 c2 OR c3, push_bit 8 c4 OR c5]
      | _ \<Rightarrow> Inl IndexError)"

text \<open>
  The first part of \<open>__get_color_sensor_val\<close>, up to the end of the first \<open>try\<close>:
  \<open>Inr None\<close> is the \<open>return []\<close> of its \<open>except\<close> clause, \<open>Inr (Some event)\<close> the
  event to wait on.
\<close>

definition color_begin :: "pyfloat \<Rightarrow> CmdProcessor \<Rightarrow> (exn + nat option) \<times> CmdProcessor" where
  "color_begin exp_time s =
     (case integ_val_of exp_time of
        Inl e \<Rightarrow> (Inl e, s)
      | Inr integ_val \<Rightarrow>
          (case new_event s of (event, s0) \<Rightarrow>
             (case color_config integ_val event (s0\<lparr>i2c_lock := True\<rparr>) of
                (Inl e, s1) \<Rightarrow> (Inr None, s1\<lparr>i2c_lock := False\<rparr>)
              | (Inr _, s1) \<Rightarrow> (Inr (Some event), s1\<lparr>i2c_lock := False\<rparr>))))"

text \<open>The second part: the second \<open>try\<close> and the final \<open>return\<close>.\<close>

definition color_finish :: "CmdProcessor \<Rightarrow> (exn + int list) \<times> CmdProcessor" where
  "color_finish s =
     (case bus_xfer (ReadBlock COLOR_SENSOR_I2C_ADDR 3 8) (s\<lparr>i2c_lock := True\<rparr>) of
        (Inl e, s1) \<Rightarrow> (Inr [], s1\<lparr>i2c_lock := False\<rparr>)
      | (Inr color_vals, s1) \<Rightarrow>
          (case decode_colors color_vals of
             Inl e \<Rightarrow> (Inl e, s1\<lparr>i2c_lock := False\<rparr>)
           | Inr colors \<Rightarrow> (Inr colors, s1\<lparr>i2c_lock := False\<rparr>)))"

definition get_color_sensor_val ::
  "pylib \<Rightarrow> (CmdProcessor \<Rightarrow> CmdProcessor) \<Rightarrow> pyfloat \<Rightarrow> CmdProcessor
     \<Rightarrow> (exn + int list) \<times> CmdProcessor" where
  "get_color_sensor_val lib during exp_time s =
     (case color_begin exp_time s of
        (Inl e, s1) \<Rightarrow> (Inl e, s1)
      | (Inr None, s1) \<Rightarrow> (Inr [], s1)
      | (Inr (Some event), s1) \<Rightarrow>
          (case event_wait lib during event (color_wait_time exp_time) s1 of
             (Inl e, s2) \<Rightarrow> (Inl e, s2)
           | (Inr _, s2) \<Rightarrow> color_finish s2))"

definition detect_color ::
  "pylib \<Rightarrow> (CmdProcessor \<Rightarrow> CmdProcessor) \<Rightarrow> HwCtrlCmd \<Rightarrow> CmdProcessor
     \<Rightarrow> (exn + HwCtrlResp) \<times> CmdProcessor" where
  "detect_color lib during cmd s =
     (let s1 = s\<lparr>color_sensor_lock := True\<rparr> in
      case (case float_param lib (params cmd) 0 of
              Inl e \<Rightarrow> (Inl e, s1)
            | Inr exp_time \<Rightarrow> get_color_sensor_val lib during exp_time s1) of
        (Inr colors, s2) \<Rightarrow>
          (if colors \<noteq> []
           then (Inr (mk_resp (cmd_no cmd) (opcode cmd) True (map str_int colors)),
                 s2\<lparr>color_sensor_lock := False\<rparr>)
           else (Inr (mk_resp (cmd_no cmd) (opcode cmd) False []),
                 s2\<lparr>color_sensor_lock := False\<rparr>))
      | (Inl e, s2) \<Rightarrow>
          (Inr (mk_resp (cmd_no cmd) (opcode cmd) False []), s2\<lparr>color_sensor_lock := False\<rparr>))"

section \<open>light-eye\<close>

text \<open>\<open>led.on()\<close> (flag true) or \<open>led.off()\<close> on one lamp.\<close>

definition set_led :: "led_color \<Rightarrow> bool \<Rightarrow> eye_leds \<Rightarrow> eye_leds" where
  "set_led c flag e =
     (case c of Red \<Rightarrow> e\<lparr>red := flag\<rparr> | Green \<Rightarrow> e\<lparr>green := flag\<rparr> | Blue \<Rightarrow> e\<lparr>blue := flag\<rparr>)"

definition led_write ::
  "eye_side \<Rightarrow> led_color \<Rightarrow> bool \<Rightarrow> CmdProcessor \<Rightarrow> (exn + unit) \<times> CmdProcessor" where
  "led_write side c flag s =
     (if led_fault s then (Inl GPIOError, s)
      else (Inr (),
            (case side of
               LeftEye \<Rightarrow> s\<lparr>left_eye := set_led c flag (left_eye s)\<rparr>
             | RightEye \<Rightarrow> s\<lparr>right_eye := set_led c flag (right_eye s)\<rparr>)
            \<lparr>trace := trace s @ [LedSet side c flag]\<rparr>))"

text \<open>\<open>__light_leds\<close>: the items of the dictionary in insertion order.\<close>

fun light_leds ::
  "(eye_side \<times> led_color \<times> bool) list \<Rightarrow> CmdProcessor \<Rightarrow> (exn + unit) \<times> CmdProcessor" where
  "light_leds [] s = (Inr (), s)"
| "light_leds ((side, c, flag) # rest) s =
     (case led_write side c flag s of
        (Inl e, s1) \<Rightarrow> (Inl e, s1)
      | (Inr _, s1) \<Rightarrow> light_leds rest s1)"

definition eye_flags :: "eye_side \<Rightarrow> bool \<Rightarrow> bool \<Rightarrow> bool \<Rightarrow> (eye_side \<times> led_color \<times> bool) list" where
  "eye_flags side r g b = [(side, Red, r), (side, Green, g), (side, Blue, b)]"

text \<open>The first four statements of the \<open>try\<close>: the selector and the three flags.\<close>

definition light_eye_args :: "pylib \<Rightarrow> HwCtrlCmd \<Rightarrow> exn + (string \<times> bool \<times> bool \<times> bool)" where
  "light_eye_args lib cmd =
     (case item (params cmd) 0 of
        Inl e \<Rightarrow> Inl e
      | Inr eye \<Rightarrow>
     (case int_param lib (params cmd) 1 of
        Inl e \<Rightarrow> Inl e
      | Inr r \<Rightarrow>
     (case int_param lib (params cmd) 2 of
        Inl e \<Rightarrow> Inl e
      | Inr g \<Rightarrow>
     (case int_param lib (params cmd) 3 of
        Inl e \<Rightarrow> Inl e
      | Inr b \<Rightarrow> Inr (eye, r \<noteq> 0, g \<noteq> 0, b \<noteq> 0)))))"

definition light_eye_body :: "pylib \<Rightarrow> HwCtrlCmd \<Rightarrow> CmdProcessor \<Rightarrow> (exn + unit) \<times> CmdProcessor" where
  "light_eye_body lib cmd s =
     (case light_eye_args lib cmd of
        Inl e \<Rightarrow> (Inl e, s)
      | Inr (eye, r, g, b) \<Rightarrow>
          (case (if eye = ''left'' \<or> eye = ''both''
                 then light_leds (eye_flags LeftEye r g b) s else (Inr (), s)) of
             (Inl e, s1) \<Rightarrow> (Inl e, s1)
           | (Inr _, s1) \<Rightarrow>
               (if eye = ''right'' \<or> eye = ''both''
                then light_leds (eye_flags RightEye r g b) s1 else (Inr (), s1))))"

definition light_eye :: "pylib \<Rightarrow> HwCtrlCmd \<Rightarrow> CmdProcessor \<Rightarrow> (exn + HwCtrlResp) \<times> CmdProcessor" where
  "light_eye lib cmd s =
     (case light_eye_body lib cmd s of
        (Inr _, s1) \<Rightarrow> (Inr (mk_resp (cmd_no cmd) (opcode cmd) True []), s1)
      | (Inl e, s1) \<Rightarrow> (Inr (mk_resp (cmd_no cmd) (opcode cmd) False []), s1))"

section \<open>process\<close>

text \<open>
  The \<open>if\<close>/\<open>elif\<close> chain of \<open>process\<close>: \<open>None\<close> when no branch returns.
\<close>

definition dispatch ::
  "pylib \<Rightarrow> (CmdProcessor \<Rightarrow> CmdProcessor) \<Rightarrow> HwCtrlCmd \<Rightarrow> CmdProcessor
     \<Rightarrow> (exn + HwCtrlResp option) \<times> CmdProcessor" where
  "dispatch lib during cmd s =
     (let ret = (\<lambda>(r, s'). (map_sum id Some r, s')) in
      if opcode cmd = ''detect-color'' then ret (detect_color lib during cmd s)
      else if opcode cmd = ''move'' then ret (move lib during cmd s)
      else if opcode cmd = ''measure-distance'' then ret (measure_distance cmd s)
      else if opcode cmd = ''light-eye'' then ret (light_eye lib cmd s)
      else (Inr None, s))"

text \<open>
  \<open>process\<close>, for the command object of identity \<open>oid\<close>.  The \<open>finally\<close> clause runs
  on every way out of the \<open>try\<close>; \<open>set.remove\<close> raises KeyError for a missing element.
\<close>

definition process ::
  "pylib \<Rightarrow> (CmdProcessor \<Rightarrow> CmdProcessor) \<Rightarrow> nat \<Rightarrow> HwCtrlCmd \<Rightarrow> CmdProcessor
     \<Rightarrow> (exn + HwCtrlResp) \<times> CmdProcessor" where
  "process lib during oid cmd s =
     (case dispatch lib during cmd (s\<lparr>activeCmds := insert oid (activeCmds s)\<rparr>) of (r, s1) \<Rightarrow>
        if oid \<notin> activeCmds s1 then (Inl KeyError, s1)
        else let s2 = s1\<lparr>activeCmds := activeCmds s1 - {oid}\<rparr> in
          (case r of
             Inl e \<Rightarrow> (Inl e, s2)
           | Inr (Some resp) \<Rightarrow> (Inr resp, s2)
           | Inr None \<Rightarrow> (Inr (mk_resp (cmd_no cmd) (opcode cmd) False []), s2)))"

section \<open>close\<close>

text \<open>
  The drain loop of \<open>close\<close>.  \<open>others n\<close> is what the other threads do to the processor
  during the \<open>n\<close>-th \<open>sleep(0.1)\<close>.
\<close>

function close_loop ::
  "nat \<Rightarrow> (nat \<Rightarrow> CmdProcessor \<Rightarrow> CmdProcessor) \<Rightarrow> CmdProcessor \<Rightarrow> CmdProcessor" where
  "close_loop count others s =
     (if activeCmds s \<noteq> {} \<and> count < 15
      then close_loop (count + 1) others
             (others (count + 1) (sleep (1 / 10) (cancel_color_detection (cancel_move s))))
      else s)"
  by pat_completeness auto
termination
  by (relation "measure (\<lambda>(count, others, s). 15 - count)") auto

declare close_loop.simps [simp del]

text \<open>
  The lamps the \<open>for\<close> loop of \<open>close\<close> visits:
  \<open>list(self.__right_eye.values()) + list(self.__right_eye.values())\<close>.
\<close>

definition close_leds :: "(eye_side \<times> led_color \<times> bool) list" where
  "close_leds = eye_flags RightEye False False False @ eye_flags RightEye False False False"

definition i2c_close :: "CmdProcessor \<Rightarrow> CmdProcessor" where
  "i2c_close s = s\<lparr>i2c_closed := True, trace := trace s @ [BusClose]\<rparr>"

definition close ::
  "(nat \<Rightarrow> CmdProcessor \<Rightarrow> CmdProcessor) \<Rightarrow> CmdProcessor \<Rightarrow> (exn + unit) \<times> CmdProcessor" where
  "close others s =
     (case light_leds close_leds (close_loop 0 others s) of
        (Inl e, s1) \<Rightarrow> (Inl e, s1)
      | (Inr _, s1) \<Rightarrow> (Inr (), i2c_close s1))"

section \<open>The initial state and the other workers\<close>

text \<open>
  \<open>CmdProcessor.__init__\<close>: the bus will answer \<open>replies\<close>; the lamps and the motor
  outputs start inactive.
\<close>

definition init :: "bus_reply list \<Rightarrow> CmdProcessor" where
  "init replies =
     \<lparr>i2c_replies = replies, i2c_closed = False, i2c_lock = False,
      color_sensor_lock = False, move_lock = False, num_times_moved = 0,
      move_event = None, get_color_event = None, events = [], activeCmds = {},
      move_ctrl = \<lparr>pwm = Fin 0, lhs_phase = False, rhs_phase = False\<rparr>,
      right_eye = \<lparr>red = False, green = False, blue = False\<rparr>,
      left_eye = \<lparr>red = False, green = False, blue = False\<rparr>,
      motor_fault = False, led_fault = False, trace = []\<rparr>"

text \<open>
  What another worker can do to the move state while this one waits: the critical
  sections of another move command (its first part, its second part with the value it
  captured) and of a stop command.
\<close>

datatype other_step = OtherMove RaspiCarMoveOp pyfloat | OtherStop | OtherFinish int

fun run_step :: "other_step \<Rightarrow> CmdProcessor \<Rightarrow> CmdProcessor" where
  "run_step (OtherMove move_op speed) s = snd (move_begin move_op speed s)"
| "run_step OtherStop s = snd (stop_raspicar s)"
| "run_step (OtherFinish captured) s = snd (move_finish captured s)"

definition others_run :: "other_step list \<Rightarrow> CmdProcessor \<Rightarrow> CmdProcessor" where
  "others_run acts s = fold run_step acts s"

text \<open>The steps that increment the generation counter: a newer move or stop command.\<close>

fun newer_cmd :: "other_step \<Rightarrow> bool" where
  "newer_cmd (OtherFinish _) = False"
| "newer_cmd _ = True"

text \<open>\<open>move_event\<close> and \<open>get_color_event\<close> refer to events that exist.\<close>

definition events_ok :: "CmdProcessor \<Rightarrow> bool" where
  "events_ok s =
     ((case move_event s of None \<Rightarrow> True | Some ev \<Rightarrow> ev < length (events s)) \<and>
      (case get_color_event s of None \<Rightarrow> True | Some ev \<Rightarrow> ev < length (events s)))"

text \<open>
  An instance of the library parameters, for evaluation on concrete commands: it agrees
  with Python on unsigned decimal integer literals (\<open>float('12')\<close> is \<open>12.0\<close>,
  \<open>int('1')\<close> is \<open>1\<close>) and rejects every other string; a wait raises for an infinite
  timeout and for one above \<open>threading.TIMEOUT_MAX\<close>.
\<close>

definition digit_val :: "char \<Rightarrow> nat option" where
  "digit_val c =
     (let n = (of_char c :: nat) in if 48 \<le> n \<and> n \<le> 57 then Some (n - 48) else None)"

fun dec_digits :: "nat \<Rightarrow> string \<Rightarrow> nat option" where
  "dec_digits acc [] = Some acc"
| "dec_digits acc (c # cs) =
     (case digit_val c of None \<Rightarrow> None | Some d \<Rightarrow> dec_digits (10 * acc + d) cs)"

definition dec_literal :: "string \<Rightarrow> nat option" where
  "dec_literal str = (if str = [] then None else dec_digits 0 str)"

definition declib :: pylib where
  "declib =
     \<lparr>py_float = (\<lambda>str. map_option (\<lambda>n. Fin (of_nat n)) (dec_literal str)),
      py_int = (\<lambda>str. map_option int (dec_literal str)),
      wait_raises = (\<lambda>t. t = PInf \<or> flt (Fin 9223372036) t)\<rparr>"

section \<open>Vocabulary of the claims about process\<close>

text \<open>
  The other threads never remove this command object from the in-flight registry while
  it waits: each worker removes only the command it processes.
\<close>

definition undisturbed :: "nat \<Rightarrow> (CmdProcessor \<Rightarrow> CmdProcessor) \<Rightarrow> bool" where
  "undisturbed oid during = (\<forall>t. oid \<in> activeCmds t \<longrightarrow> oid \<in> activeCmds (during t))"

text \<open>
  A parse error: a parameter that the handler of the command's opcode reads is missing
  or is rejected by \<open>RaspiCarMoveOp\<close>, \<open>float\<close> or \<open>int\<close>.
\<close>

definition params_rejected :: "pylib \<Rightarrow> HwCtrlCmd \<Rightarrow> bool" where
  "params_rejected lib cmd =
     (if opcode cmd = ''detect-color'' then isl (float_param lib (params cmd) 0)
      else if opcode cmd = ''move'' then
        (case item (params cmd) 0 of
           Inl e \<Rightarrow> True
         | Inr p0 \<Rightarrow>
             (case RaspiCarMoveOp_of p0 of
                Inl e \<Rightarrow> True
              | Inr move_op \<Rightarrow>
                  move_op \<noteq> STOP \<and>
                  (isl (float_param lib (params cmd) 1) \<or> isl (float_param lib (params cmd) 2))))
      else if opcode cmd = ''light-eye'' then isl (light_eye_args lib cmd)
      else False)"

text \<open>The opcodes that \<open>process\<close> routes to a handler.\<close>

definition known_opcode :: "string \<Rightarrow> bool" where
  "known_opcode opc = (opc \<in> {''detect-color'', ''move'', ''measure-distance'', ''light-eye''})"

text \<open>A transport error: the next bus transaction raises.\<close>

definition bus_down :: "CmdProcessor \<Rightarrow> bool" where
  "bus_down s =
     (i2c_closed s \<or> (case i2c_replies s of [] \<Rightarrow> True | r # rs \<Rightarrow> r = Nack))"

text \<open>
  The bus is open and acknowledges its next \<open>n\<close> transactions: none of them raises.
\<close>

fun acked :: "nat \<Rightarrow> bus_reply list \<Rightarrow> bool" where
  "acked 0 rs = True"
| "acked (Suc n) [] = False"
| "acked (Suc n) (Nack # rs) = False"
| "acked (Suc n) (Ack bs # rs) = acked n rs"

definition acks :: "nat \<Rightarrow> CmdProcessor \<Rightarrow> bool" where
  "acks n s = (\<not> i2c_closed s \<and> acked n (i2c_replies s))"

section \<open>Decoding big-endian byte groups\<close>

lemma or_low:
  assumes "0 \<le> x" "x < 2 ^ n"
  shows "push_bit n (a::int) OR x = a * 2 ^ n + x"
proof -
  have x: "take_bit n x = x"
    using assms by (simp add: take_bit_int_eq_self)
  have "push_bit n a + x = push_bit n a OR x"
  proof (rule disjunctive_add)
    fix m
    have "bit x m \<Longrightarrow> m < n"
      using x by (metis bit_take_bit_iff)
    then show "\<not> bit (push_bit n a) m \<or> \<not> bit x m"
      by (auto simp: bit_push_bit_iff)
  qed
  then show ?thesis
    by (simp add: push_bit_eq_mult)
qed

lemma be16:
  assumes "0 \<le> d1" "d1 < 256"
  shows "push_bit 8 (d0::int) OR d1 = d0 * 256 + d1"
  using or_low [of d1 8 d0] assms by simp

lemma be24:
  assumes "0 \<le> d1" "d1 < 256" "0 \<le> d2" "d2 < 256"
  shows "push_bit 16 (d0::int) OR push_bit 8 d1 OR d2 = d0 * 65536 + d1 * 256 + d2"
proof -
  have lo: "push_bit 8 d1 OR d2 = d1 * 256 + d2"
    using assms by (simp add: be16)
  have "0 \<le> d1 * 256 + d2" "d1 * 256 + d2 < 2 ^ 16"
    using assms by auto
  then have "push_bit 16 d0 OR (d1 * 256 + d2) = d0 * 2 ^ 16 + (d1 * 256 + d2)"
    by (rule or_low)
  then show ?thesis
    using lo by (simp add: or.assoc)
qed

lemma str_int_256: "str_int 256 = ''256''"
  by code_simp

section \<open>measure-distance: the decoded distance\<close>

text \<open>
  Claim C6.  When the bus is open and answers the start-measurement write and then the
  block read with three bytes \<open>d0, d1, d2\<close> (each in 0..255), \<open>__measure_distance\<close>
  returns success with the single decimal string of \<open>d0 * 65536 + d1 * 256 + d2\<close>.
  When one of the two transactions fails (the bus is closed, does not answer, or answers
  with a transport error), it returns success = false with empty data.  The bus lock is
  released in every case.
\<close>

theorem measure_distance_decodes:
  "(\<not> i2c_closed s \<and> i2c_replies s = Ack w # Ack [d0, d1, d2] # rest \<and>
      (\<forall>d \<in> {d0, d1, d2}. 0 \<le> d \<and> d < 256) \<longrightarrow>
      fst (measure_distance cmd s) =
        Inr (mk_resp (cmd_no cmd) (opcode cmd) True [str_int (d0 * 65536 + d1 * 256 + d2)])) \<and>
   (i2c_closed s \<or> i2c_replies s = [] \<or> (\<exists>rs. i2c_replies s = Nack # rs) \<or>
      (\<exists>w'. i2c_replies s = [Ack w']) \<or> (\<exists>w' rs. i2c_replies s = Ack w' # Nack # rs) \<longrightarrow>
      fst (measure_distance cmd s) = Inr (mk_resp (cmd_no cmd) (opcode cmd) False [])) \<and>
   i2c_lock (snd (measure_distance cmd s)) = False"
proof (intro conjI impI)
  assume a: "\<not> i2c_closed s \<and> i2c_replies s = Ack w # Ack [d0, d1, d2] # rest \<and>
      (\<forall>d \<in> {d0, d1, d2}. 0 \<le> d \<and> d < 256)"
  then have "push_bit 16 d0 OR push_bit 8 d1 OR d2 = d0 * 65536 + d1 * 256 + d2"
    by (intro be24) auto
  with a show "fst (measure_distance cmd s) =
        Inr (mk_resp (cmd_no cmd) (opcode cmd) True [str_int (d0 * 65536 + d1 * 256 + d2)])"
    by (simp add: measure_distance_def measure_distance_body_def bus_xfer_def sleep_def item_def)
next
  assume "i2c_closed s \<or> i2c_replies s = [] \<or> (\<exists>rs. i2c_replies s = Nack # rs) \<or>
      (\<exists>w'. i2c_replies s = [Ack w']) \<or> (\<exists>w' rs. i2c_replies s = Ack w' # Nack # rs)"
  then show "fst (measure_distance cmd s) = Inr (mk_resp (cmd_no cmd) (opcode cmd) False [])"
    by (auto simp: measure_distance_def measure_distance_body_def bus_xfer_def sleep_def)
next
  show "i2c_lock (snd (measure_distance cmd s)) = False"
    by (simp add: measure_distance_def split: prod.splits sum.splits)
qed

text \<open>
  The payload \<open>[0x00, 0x01, 0x00]\<close> gives the string \<open>256\<close>; a failing read gives
  a failure response.
\<close>

theorem measure_distance_decodes_witness:
  "fst (measure_distance \<lparr>cmd_no = ''7'', opcode = ''measure-distance'', params = []\<rparr>
          (init [Ack [], Ack [0, 1, 0]])) =
     Inr (mk_resp ''7'' ''measure-distance'' True [''256'']) \<and>
   fst (measure_distance \<lparr>cmd_no = ''8'', opcode = ''measure-distance'', params = []\<rparr>
          (init [Ack [], Nack])) =
     Inr (mk_resp ''8'' ''measure-distance'' False [])"
  using measure_distance_decodes [of "init [Ack [], Ack [0, 1, 0]]" "[]" 0 1 0 "[]"
          "\<lparr>cmd_no = ''7'', opcode = ''measure-distance'', params = []\<rparr>"]
        measure_distance_decodes [of "init [Ack [], Nack]" "[]" 0 0 0 "[]"
          "\<lparr>cmd_no = ''8'', opcode = ''measure-distance'', params = []\<rparr>"]
  by (simp add: init_def str_int_256)

section \<open>detect-color: the decoded values\<close>

lemma decode_colors_bytes:
  assumes "length bs = 8" "\<forall>b \<in> set bs. 0 \<le> b \<and> b < 256"
  shows "decode_colors bs =
           Inr [bs ! 0 * 256 + bs ! 1, bs ! 2 * 256 + bs ! 3, bs ! 4 * 256 + bs ! 5]"
proof -
  have r: "\<And>i. i < 8 \<Longrightarrow> 0 \<le> bs ! i \<and> bs ! i < 256"
    using assms by (metis nth_mem)
  have "push_bit 8 (bs ! 0) OR bs ! 1 = bs ! 0 * 256 + bs ! 1"
       "push_bit 8 (bs ! 2) OR bs ! 3 = bs ! 2 * 256 + bs ! 3"
       "push_bit 8 (bs ! 4) OR bs ! 5 = bs ! 4 * 256 + bs ! 5"
    using r [of 1] r [of 3] r [of 5] by (simp_all add: be16)
  then show ?thesis
    using assms(1) by (simp add: decode_colors_def item_def)
qed

lemma color_finish_bytes:
  assumes "\<not> i2c_closed w" "i2c_replies w = Ack bs # rest"
    "length bs = 8" "\<forall>b \<in> set bs. 0 \<le> b \<and> b < 256"
  shows "fst (color_finish w) =
           Inr [bs ! 0 * 256 + bs ! 1, bs ! 2 * 256 + bs ! 3, bs ! 4 * 256 + bs ! 5]"
  using assms(1,2) decode_colors_bytes [OF assms(3,4)]
  by (simp add: color_finish_def bus_xfer_def)

text \<open>
  Claim C7.  When a detect-color command gets as far as the final block read (the
  exposure parameter parses, the configuration writes succeed, the wait returns) and that
  read answers with eight bytes, each in 0..255, \<open>__detect_color\<close> returns success with
  exactly three decimal strings: the big-endian 16-bit values of the byte pairs 0-1, 2-3
  and 4-5, in this order (red, green, blue), each between 0 and 65535.
\<close>

theorem detect_color_decodes:
  assumes "float_param lib (params cmd) 0 = Inr exp_time"
    and "color_begin exp_time (s\<lparr>color_sensor_lock := True\<rparr>) = (Inr (Some event), s1)"
    and "event_wait lib during event (color_wait_time exp_time) s1 = (Inr (), w)"
    and "\<not> i2c_closed w" and "i2c_replies w = Ack bs # rest"
    and "length bs = 8" and "\<forall>b \<in> set bs. 0 \<le> b \<and> b < 256"
  shows "fst (detect_color lib during cmd s) =
           Inr (mk_resp (cmd_no cmd) (opcode cmd) True
                  (map str_int [bs ! 0 * 256 + bs ! 1, bs ! 2 * 256 + bs ! 3, bs ! 4 * 256 + bs ! 5])) \<and>
         (\<forall>v \<in> {bs ! 0 * 256 + bs ! 1, bs ! 2 * 256 + bs ! 3, bs ! 4 * 256 + bs ! 5}.
            0 \<le> v \<and> v \<le> 65535)"
proof
  have "fst (color_finish w) =
          Inr [bs ! 0 * 256 + bs ! 1, bs ! 2 * 256 + bs ! 3, bs ! 4 * 256 + bs ! 5]"
    using assms(4-7) by (rule color_finish_bytes)
  then show "fst (detect_color lib during cmd s) =
           Inr (mk_resp (cmd_no cmd) (opcode cmd) True
                  (map str_int [bs ! 0 * 256 + bs ! 1, bs ! 2 * 256 + bs ! 3, bs ! 4 * 256 + bs ! 5]))"
    using assms(1-3)
    by (cases "color_finish w") (simp add: detect_color_def get_color_sensor_val_def)
next
  have r: "\<And>i. i < 8 \<Longrightarrow> 0 \<le> bs ! i \<and> bs ! i < 256"
    using assms(6,7) by (metis nth_mem)
  show "\<forall>v \<in> {bs ! 0 * 256 + bs ! 1, bs ! 2 * 256 + bs ! 3, bs ! 4 * 256 + bs ! 5}.
            0 \<le> v \<and> v \<le> 65535"
    using r [of 0] r [of 1] r [of 2] r [of 3] r [of 4] r [of 5] by auto
qed



lemma str_nat_small: "n < 10 \<Longrightarrow> str_nat n = [digit_char n]"
  by (simp add: str_nat.simps)

lemma str_nat_large: "10 \<le> n \<Longrightarrow> str_nat n = str_nat (n div 10) @ [digit_char (n mod 10)]"
  by (simp add: str_nat.simps)

lemmas str_eval = str_int_def str_nat_small str_nat_large digit_char_def

text \<open>A detection with exposure 0 on a bus that answers \<open>[1, 2, 3, 4, 255, 255, 7, 8]\<close>.\<close>

theorem detect_color_decodes_witness:
  "fst (detect_color declib id \<lparr>cmd_no = ''3'', opcode = ''detect-color'', params = [''0'']\<rparr>
          (init [Ack [], Ack [], Ack [], Ack [], Ack [1, 2, 3, 4, 255, 255, 7, 8]])) =
     Inr (mk_resp ''3'' ''detect-color'' True [''258'', ''772'', ''65535''])"
proof -
  let ?cmd = "\<lparr>cmd_no = ''3'', opcode = ''detect-color'', params = [''0'']\<rparr>"
  let ?s = "init [Ack [], Ack [], Ack [], Ack [], Ack [1, 2, 3, 4, 255, 255, 7, 8]]"
  let ?s1 = "(init [Ack [1, 2, 3, 4, 255, 255, 7, 8]])
      \<lparr>color_sensor_lock := True, get_color_event := Some 0, events := [False],
       trace := [WriteByteData 42 0 140, WriteByteData 42 1 0, WriteByteData 42 2 0,
                 WriteByteData 42 0 12]\<rparr>"
  let ?w = "?s1\<lparr>trace := trace ?s1 @ [Wait 0 (Fin 0)]\<rparr>"
  have h1: "float_param declib (params ?cmd) 0 = Inr (Fin 0)"
    by code_simp
  have h2: "color_begin (Fin 0) (?s\<lparr>color_sensor_lock := True\<rparr>) = (Inr (Some 0), ?s1)"
    by code_simp
  have h3: "event_wait declib id 0 (color_wait_time (Fin 0)) ?s1 = (Inr (), ?w)"
    by code_simp
  have h4: "\<not> i2c_closed ?w"
    by (simp add: init_def)
  have h5: "i2c_replies ?w = Ack [1, 2, 3, 4, 255, 255, 7, 8] # []"
    by (simp add: init_def)
  have h6: "length [1, 2, 3, 4, 255, 255, 7, 8 :: int] = 8"
    by simp
  have h7: "\<forall>b \<in> set [1, 2, 3, 4, 255, 255, 7, 8 :: int]. 0 \<le> b \<and> b < 256"
    by simp
  show ?thesis
    using detect_color_decodes [OF h1 h2 h3 h4 h5 h6 h7] by (simp add: str_eval)
qed

section \<open>light-eye: an unknown eye selector\<close>

text \<open>
  Claim C9.  When the three flag parameters of a light-eye command parse as integers and
  its eye selector is none of \<open>left\<close>, \<open>right\<close>, \<open>both\<close>, \<open>__light_eye\<close> returns
  success and leaves the whole processor state as it was: no lamp changes and no lamp is
  called (the trace is unchanged).
\<close>

theorem light_eye_unknown_eye:
  assumes "item (params cmd) 0 = Inr eye"
    and "eye \<noteq> ''left''" and "eye \<noteq> ''right''" and "eye \<noteq> ''both''"
    and "int_param lib (params cmd) 1 = Inr r"
    and "int_param lib (params cmd) 2 = Inr g"
    and "int_param lib (params cmd) 3 = Inr b"
  shows "light_eye lib cmd s = (Inr (mk_resp (cmd_no cmd) (opcode cmd) True []), s)"
  using assms by (simp add: light_eye_def light_eye_body_def light_eye_args_def)

theorem light_eye_unknown_eye_witness:
  "light_eye declib \<lparr>cmd_no = ''5'', opcode = ''light-eye'', params = [''up'', ''1'', ''0'', ''1'']\<rparr>
     (init []) = (Inr (mk_resp ''5'' ''light-eye'' True []), init [])"
proof -
  let ?cmd = "\<lparr>cmd_no = ''5'', opcode = ''light-eye'', params = [''up'', ''1'', ''0'', ''1'']\<rparr>"
  have h0: "item (params ?cmd) 0 = Inr ''up''"
    by (simp add: item_def)
  have h1: "int_param declib (params ?cmd) 1 = Inr 1"
    by code_simp
  have h2: "int_param declib (params ?cmd) 2 = Inr 0"
    by code_simp
  have h3: "int_param declib (params ?cmd) 3 = Inr 1"
    by code_simp
  show ?thesis
    using light_eye_unknown_eye [OF h0 _ _ _ h1 h2 h3, of "init []"] by simp
qed

section \<open>move: stop\<close>

text \<open>
  Claim C5.  A move command whose operation is \<open>stop\<close> increments the generation
  counter and leaves the move lock released.  When the motor pins do not raise, it sets
  the duty cycle to 0 (one motor call), sets the event of the active move wait, if there
  is one, and reports success; when they raise, it reports failure.
\<close>

theorem stop_command:
  assumes "item (params cmd) 0 = Inr ''stop''"
  shows "num_times_moved (snd (move lib during cmd s)) = num_times_moved s + 1 \<and>
         move_lock (snd (move lib during cmd s)) = False \<and>
         (\<not> motor_fault s \<longrightarrow>
            fst (move lib during cmd s) = Inr (mk_resp (cmd_no cmd) (opcode cmd) True []) \<and>
            trace (snd (move lib during cmd s)) = trace s @ [PwmValue (Fin 0)] \<and>
            pwm (move_ctrl (snd (move lib during cmd s))) = Fin 0 \<and>
            (\<forall>ev. move_event s = Some ev \<and> ev < length (events s) \<longrightarrow>
                  is_set ev (snd (move lib during cmd s)))) \<and>
         (motor_fault s \<longrightarrow>
            fst (move lib during cmd s) = Inr (mk_resp (cmd_no cmd) (opcode cmd) False []))"
proof -
  have m: "move_body lib during cmd s = stop_raspicar s"
    using assms by (simp add: move_body_def RaspiCarMoveOp_of_def)
  show ?thesis
  proof (cases "motor_fault s")
    case True
    then show ?thesis
      by (simp add: move_def m stop_raspicar_def MoveCtrl_stop_def Let_def)
  next
    case False
    then show ?thesis
      by (simp add: move_def m stop_raspicar_def MoveCtrl_stop_def Let_def cancel_move_def
          event_set_def is_set_def split: option.splits)
  qed
qed

text \<open>
  A stop while a forward move is waiting on event 0; a stop when the motor pins raise.
\<close>

theorem stop_command_witness:
  "fst (move declib id \<lparr>cmd_no = ''2'', opcode = ''move'', params = [''stop'']\<rparr>
          (snd (move_begin FORWARD (Fin (1 / 2)) (init [])))) =
     Inr (mk_resp ''2'' ''move'' True []) \<and>
   is_set 0 (snd (move declib id \<lparr>cmd_no = ''2'', opcode = ''move'', params = [''stop'']\<rparr>
          (snd (move_begin FORWARD (Fin (1 / 2)) (init []))))) \<and>
   fst (move declib id \<lparr>cmd_no = ''2'', opcode = ''move'', params = [''stop'']\<rparr>
          ((init [])\<lparr>motor_fault := True\<rparr>)) =
     Inr (mk_resp ''2'' ''move'' False [])"
proof -
  let ?cmd = "\<lparr>cmd_no = ''2'', opcode = ''move'', params = [''stop'']\<rparr>"
  let ?s = "snd (move_begin FORWARD (Fin (1 / 2)) (init []))"
  let ?broken = "(init [])\<lparr>motor_fault := True\<rparr>"
  have h: "item (params ?cmd) 0 = Inr ''stop''"
    by (simp add: item_def)
  have f: "\<not> motor_fault ?s"
    by code_simp
  have e: "move_event ?s = Some 0 \<and> 0 < length (events ?s)"
    by code_simp
  have g: "motor_fault ?broken"
    by simp
  show ?thesis
    using stop_command [OF h, of declib id ?s] stop_command [OF h, of declib id ?broken] f e g
    by simp
qed

section \<open>move: the generation counter\<close>

lemma MoveCtrl_move_cases:
  "MoveCtrl_move move_op speed s = (r, s') \<Longrightarrow>
     (motor_fault s \<and> r = Inl GPIOError \<and> s' = s) \<or>
     (\<not> motor_fault s \<and> r = Inr () \<and> num_times_moved s' = num_times_moved s \<and>
        motor_fault s' = motor_fault s \<and> events s' = events s \<and> move_event s' = move_event s)"
  by (cases move_op)
     (auto simp: MoveCtrl_forward_def MoveCtrl_backward_def MoveCtrl_clockwise_def
        MoveCtrl_counter_clockwise_def MoveCtrl_stop_def drive_def Let_def split: if_splits)

lemma cancel_move_fields [simp]:
  "num_times_moved (cancel_move s) = num_times_moved s"
  "motor_fault (cancel_move s) = motor_fault s"
  "length (events (cancel_move s)) = length (events s)"
  "trace (cancel_move s) = trace s"
  "move_ctrl (cancel_move s) = move_ctrl s"
  by (simp_all add: cancel_move_def event_set_def split: option.splits)

lemma move_begin_counter:
  "num_times_moved (snd (move_begin move_op speed s)) = num_times_moved s + 1"
  "motor_fault (snd (move_begin move_op speed s)) = motor_fault s"
proof -
  obtain r s' where m: "MoveCtrl_move move_op speed
      (s\<lparr>events := events s @ [False], move_lock := True,
         num_times_moved := num_times_moved s + 1\<rparr>) = (r, s')"
    by (cases "MoveCtrl_move move_op speed
      (s\<lparr>events := events s @ [False], move_lock := True,
         num_times_moved := num_times_moved s + 1\<rparr>)") 
  from MoveCtrl_move_cases [OF m]
  show "num_times_moved (snd (move_begin move_op speed s)) = num_times_moved s + 1"
    and "motor_fault (snd (move_begin move_op speed s)) = motor_fault s"
    using m by (auto simp: move_begin_def new_event_def Let_def)
qed

lemma move_begin_Some:
  assumes "move_begin move_op speed s = (Some (captured, event), s1)"
  shows "captured = num_times_moved s + 1" and "num_times_moved s1 = captured"
    and "\<not> motor_fault s1" and "event = length (events s)"
    and "events_ok s \<Longrightarrow> \<not> is_set event s1"
proof -
  obtain r s' where m: "MoveCtrl_move move_op speed
      (s\<lparr>events := events s @ [False], move_lock := True,
         num_times_moved := num_times_moved s + 1\<rparr>) = (r, s')"
    by (cases "MoveCtrl_move move_op speed
      (s\<lparr>events := events s @ [False], move_lock := True,
         num_times_moved := num_times_moved s + 1\<rparr>)")
  from assms m have r: "r = Inr ()" and
    s1: "s1 = (cancel_move s')\<lparr>move_event := Some event, move_lock := False\<rparr>"
    and c: "captured = num_times_moved s + 1" and e: "event = length (events s)"
    by (auto simp: move_begin_def new_event_def Let_def split: sum.splits)
  from MoveCtrl_move_cases [OF m] r
  have f: "\<not> motor_fault s'" "num_times_moved s' = num_times_moved s + 1"
    "events s' = events s @ [False]" "move_event s' = move_event s"
    by auto
  show "captured = num_times_moved s + 1" by (rule c)
  show "num_times_moved s1 = captured" using s1 f c by simp
  show "\<not> motor_fault s1" using s1 f by simp
  show "event = length (events s)" by (rule e)
  show "\<not> is_set event s1" if "events_ok s"
    using that s1 f e
    by (auto simp: events_ok_def is_set_def cancel_move_def event_set_def nth_append
        split: option.splits)
qed

lemma stop_raspicar_counter:
  "num_times_moved (snd (stop_raspicar s)) = num_times_moved s + 1"
  "motor_fault (snd (stop_raspicar s)) = motor_fault s"
  by (simp_all add: stop_raspicar_def MoveCtrl_stop_def Let_def)

lemma move_finish_counter:
  "num_times_moved (snd (move_finish captured s)) = num_times_moved s"
  "motor_fault (snd (move_finish captured s)) = motor_fault s"
  by (simp_all add: move_finish_def MoveCtrl_stop_def Let_def)

lemma run_step_counter:
  "num_times_moved (run_step a s) = num_times_moved s + (if newer_cmd a then 1 else 0)"
  "motor_fault (run_step a s) = motor_fault s"
  by (cases a; simp add: move_begin_counter stop_raspicar_counter move_finish_counter)+

lemma others_run_counter:
  "num_times_moved (others_run acts s) = num_times_moved s + int (length (filter newer_cmd acts))"
  unfolding others_run_def
  by (induction acts arbitrary: s) (simp_all add: run_step_counter)

lemma others_run_fault: "motor_fault (others_run acts s) = motor_fault s"
  unfolding others_run_def
  by (induction acts arbitrary: s) (simp_all add: run_step_counter)

lemma no_newer_iff: "length (filter newer_cmd acts) = 0 \<longleftrightarrow> (\<forall>a \<in> set acts. \<not> newer_cmd a)"
  by (simp add: filter_empty_conv)

lemma move_finish_stale:
  "num_times_moved w \<noteq> captured \<Longrightarrow>
   move_finish captured w = (Inr True, w\<lparr>move_lock := False\<rparr>)"
  by (auto simp: move_finish_def Let_def)

lemma move_finish_owner:
  "num_times_moved w = captured \<Longrightarrow> \<not> motor_fault w \<Longrightarrow>
   move_finish captured w =
     (Inr True, w\<lparr>move_lock := False, move_ctrl := (move_ctrl w)\<lparr>pwm := Fin 0\<rparr>,
                  trace := trace w @ [PwmValue (Fin 0)]\<rparr>)"
  by (auto simp: move_finish_def MoveCtrl_stop_def Let_def)

text \<open>
  Claim C3.  Take a move command whose first part succeeded and captured the counter
  value \<open>captured\<close>, and let the other workers run any sequence \<open>acts\<close> of critical
  sections of other move and stop commands while it waits.  When it wakes up in state
  \<open>w\<close>, its second part is \<open>move_finish captured w\<close>; the counter still equals
  \<open>captured\<close> if and only if no newer move or stop command ran in \<open>acts\<close>; the second
  part calls the motor (duty cycle 0) exactly when the counter equals \<open>captured\<close>, and
  otherwise makes no motor call and leaves the motor outputs as they are.
\<close>

theorem stale_move_wait:
  assumes "move_begin move_op speed s = (Some (captured, event), s1)"
    and "events_ok s"
    and "\<not> wait_raises lib time"
  shows "\<exists>w. event_wait lib (others_run acts) event time s1 = (Inr (), w) \<and>
           move_raspicar lib (others_run acts) move_op speed time s = move_finish captured w \<and>
           (num_times_moved w = captured \<longleftrightarrow> (\<forall>a \<in> set acts. \<not> newer_cmd a)) \<and>
           trace (snd (move_finish captured w)) =
             trace w @ (if num_times_moved w = captured then [PwmValue (Fin 0)] else []) \<and>
           (num_times_moved w = captured \<longrightarrow>
              pwm (move_ctrl (snd (move_finish captured w))) = Fin 0) \<and>
           (num_times_moved w \<noteq> captured \<longrightarrow>
              move_ctrl (snd (move_finish captured w)) = move_ctrl w)"
proof -
  let ?w = "others_run acts (s1\<lparr>trace := trace s1 @ [Wait event time]\<rparr>)"
  note b = move_begin_Some [OF assms(1)]
  have w: "event_wait lib (others_run acts) event time s1 = (Inr (), ?w)"
    using b(5) [OF assms(2)] assms(3) by (simp add: event_wait_def)
  have r: "move_raspicar lib (others_run acts) move_op speed time s = move_finish captured ?w"
    using assms(1) w by (simp add: move_raspicar_def)
  have c: "num_times_moved ?w = captured + int (length (filter newer_cmd acts))"
    using b(2) by (simp add: others_run_counter)
  have iff: "num_times_moved ?w = captured \<longleftrightarrow> (\<forall>a \<in> set acts. \<not> newer_cmd a)"
    using c no_newer_iff [of acts] by simp
  have f: "\<not> motor_fault ?w"
    using b(3) by (simp add: others_run_fault)
  have t: "trace (snd (move_finish captured ?w)) =
             trace ?w @ (if num_times_moved ?w = captured then [PwmValue (Fin 0)] else [])"
    using f by (cases "num_times_moved ?w = captured")
      (simp_all add: move_finish_owner move_finish_stale)
  have p: "num_times_moved ?w = captured \<longrightarrow>
              pwm (move_ctrl (snd (move_finish captured ?w))) = Fin 0"
    using f by (simp add: move_finish_owner)
  have q: "num_times_moved ?w \<noteq> captured \<longrightarrow>
              move_ctrl (snd (move_finish captured ?w)) = move_ctrl ?w"
    by (simp add: move_finish_stale)
  from w r iff t p q show ?thesis
    by blast
qed

text \<open>
  Move forward for 5 s, then: a newer backward move runs during the wait (the motor keeps
  the newer command's outputs); only the second part of an older move runs (this wait
  owns the stop).
\<close>

theorem stale_move_wait_witness:
  "trace (snd (move_raspicar declib (others_run [OtherMove BACKWARD (Fin (3 / 10))])
                 FORWARD (Fin (1 / 2)) (Fin 5) (init []))) =
     [LhsPhase False, RhsPhase False, PwmValue (Fin (1 / 2)), Wait 0 (Fin 5),
      LhsPhase True, RhsPhase True, PwmValue (Fin (3 / 10))] \<and>
   trace (snd (move_raspicar declib (others_run [OtherFinish 0])
                 FORWARD (Fin (1 / 2)) (Fin 5) (init []))) =
     [LhsPhase False, RhsPhase False, PwmValue (Fin (1 / 2)), Wait 0 (Fin 5),
      PwmValue (Fin 0)]"
proof -
  let ?s1 = "(init [])\<lparr>num_times_moved := 1, move_event := Some 0, events := [False],
      move_ctrl := \<lparr>pwm = Fin (1 / 2), lhs_phase = False, rhs_phase = False\<rparr>,
      trace := [LhsPhase False, RhsPhase False, PwmValue (Fin (1 / 2))]\<rparr>"
  let ?newer = "[OtherMove BACKWARD (Fin (3 / 10))]"
  let ?older = "[OtherFinish 0]"
  let ?wn = "?s1\<lparr>num_times_moved := 2, move_event := Some 1, events := [True, False],
      move_ctrl := \<lparr>pwm = Fin (3 / 10), lhs_phase = True, rhs_phase = True\<rparr>,
      trace := [LhsPhase False, RhsPhase False, PwmValue (Fin (1 / 2)), Wait 0 (Fin 5),
                LhsPhase True, RhsPhase True, PwmValue (Fin (3 / 10))]\<rparr>"
  let ?wo = "?s1\<lparr>trace := [LhsPhase False, RhsPhase False, PwmValue (Fin (1 / 2)),
                Wait 0 (Fin 5)]\<rparr>"
  have h1: "move_begin FORWARD (Fin (1 / 2)) (init []) = (Some (1, 0), ?s1)"
    by code_simp
  have h2: "events_ok (init [])"
    by (simp add: events_ok_def init_def)
  have h3: "\<not> wait_raises declib (Fin 5)"
    by (simp add: declib_def)
  have wn: "event_wait declib (others_run ?newer) 0 (Fin 5) ?s1 = (Inr (), ?wn)"
    by code_simp
  have wo: "event_wait declib (others_run ?older) 0 (Fin 5) ?s1 = (Inr (), ?wo)"
    by code_simp
  have n: "trace (snd (move_raspicar declib (others_run ?newer)
                 FORWARD (Fin (1 / 2)) (Fin 5) (init []))) = trace ?wn"
    using stale_move_wait [OF h1 h2 h3, of ?newer] wn by auto
  have o: "trace (snd (move_raspicar declib (others_run ?older)
                 FORWARD (Fin (1 / 2)) (Fin 5) (init []))) = trace ?wo @ [PwmValue (Fin 0)]"
    using stale_move_wait [OF h1 h2 h3, of ?older] wo by auto
  show ?thesis
    using n o by simp
qed

text \<open>
  Claim C10.  A move command that wakes up with a counter different from the value it
  captured returns the response with success = true and no data, the same response as
  the move that wakes up with the counter unchanged and stops the motor.
\<close>

theorem preempted_move_reports_success:
  assumes "item (params cmd) 0 = Inr p0" and "RaspiCarMoveOp_of p0 = Inr move_op"
    and "move_op \<noteq> STOP"
    and "float_param lib (params cmd) 1 = Inr speed"
    and "float_param lib (params cmd) 2 = Inr time"
    and "move_begin move_op speed s = (Some (captured, event), s1)"
    and "event_wait lib during event time s1 = (Inr (), w)"
    and "num_times_moved w \<noteq> captured"
    and "event_wait lib during' event time s1 = (Inr (), w')"
    and "num_times_moved w' = captured" and "\<not> motor_fault w'"
  shows "fst (move lib during cmd s) = Inr (mk_resp (cmd_no cmd) (opcode cmd) True []) \<and>
         fst (move lib during cmd s) = fst (move lib during' cmd s)"
proof -
  have a: "move_body lib during cmd s = move_finish captured w"
    using assms(1-7) by (simp add: move_body_def move_raspicar_def)
  have b: "move_body lib during' cmd s = move_finish captured w'"
    using assms(1-6,9) by (simp add: move_body_def move_raspicar_def)
  show ?thesis
    using assms(8,10,11)
    by (simp add: move_def a b move_finish_stale move_finish_owner)
qed

theorem preempted_move_reports_success_witness:
  "fst (move declib (others_run [OtherStop])
          \<lparr>cmd_no = ''1'', opcode = ''move'', params = [''fwd'', ''1'', ''5'']\<rparr> (init [])) =
     Inr (mk_resp ''1'' ''move'' True []) \<and>
   fst (move declib id
          \<lparr>cmd_no = ''1'', opcode = ''move'', params = [''fwd'', ''1'', ''5'']\<rparr> (init [])) =
     Inr (mk_resp ''1'' ''move'' True [])"
proof -
  let ?cmd = "\<lparr>cmd_no = ''1'', opcode = ''move'', params = [''fwd'', ''1'', ''5'']\<rparr>"
  let ?s1 = "(init [])\<lparr>num_times_moved := 1, move_event := Some 0, events := [False],
      move_ctrl := \<lparr>pwm = Fin 1, lhs_phase = False, rhs_phase = False\<rparr>,
      trace := [LhsPhase False, RhsPhase False, PwmValue (Fin 1)]\<rparr>"
  let ?w = "snd (event_wait declib (others_run [OtherStop]) 0 (Fin 5) ?s1)"
  let ?w' = "snd (event_wait declib id 0 (Fin 5) ?s1)"
  have p0: "item (params ?cmd) 0 = Inr ''fwd''"
    by (simp add: item_def)
  have p1: "RaspiCarMoveOp_of ''fwd'' = Inr FORWARD"
    by (simp add: RaspiCarMoveOp_of_def)
  have p2: "FORWARD \<noteq> STOP"
    by simp
  have p3: "float_param declib (params ?cmd) 1 = Inr (Fin 1)"
    by code_simp
  have p4: "float_param declib (params ?cmd) 2 = Inr (Fin 5)"
    by code_simp
  have b: "move_begin FORWARD (Fin 1) (init []) = (Some (1, 0), ?s1)"
    by code_simp
  have w: "event_wait declib (others_run [OtherStop]) 0 (Fin 5) ?s1 = (Inr (), ?w)"
    by code_simp
  have n: "num_times_moved ?w \<noteq> 1"
    by code_simp
  have w': "event_wait declib id 0 (Fin 5) ?s1 = (Inr (), ?w')"
    by code_simp
  have n': "num_times_moved ?w' = 1"
    by code_simp
  have f': "\<not> motor_fault ?w'"
    by code_simp
  note t = preempted_move_reports_success [OF p0 p1 p2 p3 p4 b w n w' n' f']
  have a: "fst (move declib (others_run [OtherStop]) ?cmd (init [])) =
             Inr (mk_resp ''1'' ''move'' True [])"
    using t [THEN conjunct1] by simp
  have "fst (move declib id ?cmd (init [])) = Inr (mk_resp ''1'' ''move'' True [])"
    using t [THEN conjunct2, symmetric] a by (rule trans)
  with a show ?thesis
    by (rule conjI)
qed

section \<open>process: the in-flight registry\<close>

lemma bus_xfer_activeD: "bus_xfer c s = (r, s') \<Longrightarrow> activeCmds s' = activeCmds s"
  by (auto simp: bus_xfer_def split: list.splits bus_reply.splits if_splits)

lemma measure_distance_body_activeD:
  "measure_distance_body s = (r, s') \<Longrightarrow> activeCmds s' = activeCmds s"
  unfolding measure_distance_body_def
  by (auto simp: sleep_def split: prod.splits sum.splits dest!: bus_xfer_activeD)

lemma measure_distance_activeD:
  "measure_distance cmd s = (r, s') \<Longrightarrow> activeCmds s' = activeCmds s"
  unfolding measure_distance_def
  by (auto split: prod.splits sum.splits dest!: measure_distance_body_activeD)

lemma cancel_active [simp]:
  "activeCmds (cancel_move s) = activeCmds s"
  "activeCmds (cancel_color_detection s) = activeCmds s"
  by (simp_all add: cancel_move_def cancel_color_detection_def event_set_def split: option.splits)

lemma MoveCtrl_stop_activeD: "MoveCtrl_stop s = (r, s') \<Longrightarrow> activeCmds s' = activeCmds s"
  by (auto simp: MoveCtrl_stop_def split: if_splits)

lemma MoveCtrl_move_activeD:
  "MoveCtrl_move move_op speed s = (r, s') \<Longrightarrow> activeCmds s' = activeCmds s"
  by (cases move_op)
     (auto simp: MoveCtrl_forward_def MoveCtrl_backward_def MoveCtrl_clockwise_def
        MoveCtrl_counter_clockwise_def MoveCtrl_stop_def drive_def Let_def split: if_splits)

lemma move_begin_activeD:
  "move_begin move_op speed s = (r, s') \<Longrightarrow> activeCmds s' = activeCmds s"
  unfolding move_begin_def new_event_def
  by (auto simp: Let_def split: prod.splits sum.splits dest!: MoveCtrl_move_activeD)

lemma move_finish_activeD:
  "move_finish captured s = (r, s') \<Longrightarrow> activeCmds s' = activeCmds s"
  unfolding move_finish_def
  by (auto simp: Let_def split: prod.splits sum.splits if_splits dest!: MoveCtrl_stop_activeD)

lemma stop_raspicar_activeD:
  "stop_raspicar s = (r, s') \<Longrightarrow> activeCmds s' = activeCmds s"
  unfolding stop_raspicar_def
  by (auto simp: Let_def split: prod.splits sum.splits dest!: MoveCtrl_stop_activeD)

lemma event_wait_activeD:
  "event_wait lib during ev t s = (r, s') \<Longrightarrow> undisturbed oid during \<Longrightarrow>
   oid \<in> activeCmds s \<Longrightarrow> oid \<in> activeCmds s'"
  by (auto simp: event_wait_def undisturbed_def split: if_splits)

lemma move_raspicar_activeD:
  "move_raspicar lib during move_op speed time s = (r, s') \<Longrightarrow> undisturbed oid during \<Longrightarrow>
   oid \<in> activeCmds s \<Longrightarrow> oid \<in> activeCmds s'"
  unfolding move_raspicar_def
  by (auto split: prod.splits sum.splits option.splits
        dest!: move_begin_activeD move_finish_activeD dest: event_wait_activeD)

lemma move_body_activeD:
  "move_body lib during cmd s = (r, s') \<Longrightarrow> undisturbed oid during \<Longrightarrow>
   oid \<in> activeCmds s \<Longrightarrow> oid \<in> activeCmds s'"
  unfolding move_body_def
  by (auto split: sum.splits if_splits dest!: stop_raspicar_activeD dest: move_raspicar_activeD)

lemma move_activeD:
  "move lib during cmd s = (r, s') \<Longrightarrow> undisturbed oid during \<Longrightarrow>
   oid \<in> activeCmds s \<Longrightarrow> oid \<in> activeCmds s'"
  unfolding move_def
  by (auto split: prod.splits sum.splits dest: move_body_activeD)

lemma color_config_activeD:
  "color_config integ_val event s = (r, s') \<Longrightarrow> activeCmds s' = activeCmds s"
  unfolding color_config_def
  by (auto split: prod.splits sum.splits dest!: bus_xfer_activeD)

lemma color_begin_activeD:
  "color_begin exp_time s = (r, s') \<Longrightarrow> activeCmds s' = activeCmds s"
  unfolding color_begin_def new_event_def
  by (auto split: prod.splits sum.splits dest!: color_config_activeD)

lemma color_finish_activeD:
  "color_finish s = (r, s') \<Longrightarrow> activeCmds s' = activeCmds s"
  unfolding color_finish_def
  by (auto split: prod.splits sum.splits dest!: bus_xfer_activeD)

lemma get_color_sensor_val_activeD:
  "get_color_sensor_val lib during exp_time s = (r, s') \<Longrightarrow> undisturbed oid during \<Longrightarrow>
   oid \<in> activeCmds s \<Longrightarrow> oid \<in> activeCmds s'"
  unfolding get_color_sensor_val_def
  by (auto split: prod.splits sum.splits option.splits
        dest!: color_begin_activeD color_finish_activeD dest: event_wait_activeD)

lemma detect_color_activeD:
  "detect_color lib during cmd s = (r, s') \<Longrightarrow> undisturbed oid during \<Longrightarrow>
   oid \<in> activeCmds s \<Longrightarrow> oid \<in> activeCmds s'"
  unfolding detect_color_def
  by (auto simp: Let_def split: prod.splits sum.splits if_splits
        dest: get_color_sensor_val_activeD)

lemma led_write_activeD:
  "led_write side c flag s = (r, s') \<Longrightarrow> activeCmds s' = activeCmds s"
  by (auto simp: led_write_def split: if_splits eye_side.splits)

lemma light_leds_activeD:
  "light_leds fl s = (r, s') \<Longrightarrow> activeCmds s' = activeCmds s"
proof (induction fl s arbitrary: r s' rule: light_leds.induct)
  case (1 s)
  then show ?case by simp
next
  case (2 side c flag rest s)
  then show ?case
    by (auto split: prod.splits sum.splits dest!: led_write_activeD)
qed

lemma light_eye_activeD:
  "light_eye lib cmd s = (r, s') \<Longrightarrow> activeCmds s' = activeCmds s"
  unfolding light_eye_def light_eye_body_def
  by (auto split: prod.splits sum.splits if_splits dest!: light_leds_activeD)

lemma dispatch_activeD:
  "dispatch lib during cmd s = (r, s') \<Longrightarrow> undisturbed oid during \<Longrightarrow>
   oid \<in> activeCmds s \<Longrightarrow> oid \<in> activeCmds s'"
  unfolding dispatch_def
  by (auto simp: Let_def split: prod.splits if_splits
        dest!: measure_distance_activeD light_eye_activeD
        dest: move_activeD detect_color_activeD)

section \<open>process: the shape of the response\<close>

lemma move_shape:
  "\<exists>ok. fst (move lib during cmd s) = Inr (mk_resp (cmd_no cmd) (opcode cmd) ok [])"
  by (auto simp: move_def split: prod.splits sum.splits)

lemma detect_color_shape:
  "\<exists>ok d. fst (detect_color lib during cmd s) = Inr (mk_resp (cmd_no cmd) (opcode cmd) ok d) \<and>
          (\<not> ok \<longrightarrow> d = [])"
  by (auto simp: detect_color_def Let_def split: prod.splits sum.splits)

lemma measure_distance_shape:
  "\<exists>ok d. fst (measure_distance cmd s) = Inr (mk_resp (cmd_no cmd) (opcode cmd) ok d) \<and>
          (\<not> ok \<longrightarrow> d = [])"
  by (auto simp: measure_distance_def split: prod.splits sum.splits)

lemma light_eye_shape:
  "\<exists>ok. fst (light_eye lib cmd s) = Inr (mk_resp (cmd_no cmd) (opcode cmd) ok [])"
  by (auto simp: light_eye_def split: prod.splits sum.splits)

lemma fst_dispatch:
  "fst (dispatch lib during cmd s) =
     (if opcode cmd = ''detect-color'' then map_sum id Some (fst (detect_color lib during cmd s))
      else if opcode cmd = ''move'' then map_sum id Some (fst (move lib during cmd s))
      else if opcode cmd = ''measure-distance'' then map_sum id Some (fst (measure_distance cmd s))
      else if opcode cmd = ''light-eye'' then map_sum id Some (fst (light_eye lib cmd s))
      else Inr None)"
  by (simp add: dispatch_def Let_def case_prod_beta)

lemma dispatch_shape:
  "\<exists>ok d. fst (dispatch lib during cmd s) =
            Inr (if known_opcode (opcode cmd)
                 then Some (mk_resp (cmd_no cmd) (opcode cmd) ok d) else None) \<and>
          (\<not> ok \<longrightarrow> d = [])"
proof -
  consider "opcode cmd = ''detect-color''" | "opcode cmd = ''move''"
    | "opcode cmd = ''measure-distance''" | "opcode cmd = ''light-eye''"
    | "\<not> known_opcode (opcode cmd)"
    by (auto simp: known_opcode_def)
  then show ?thesis
  proof cases
    case 1
    from detect_color_shape [of lib during cmd s] obtain ok d where
      "fst (detect_color lib during cmd s) = Inr (mk_resp (cmd_no cmd) (opcode cmd) ok d)"
      "\<not> ok \<longrightarrow> d = []"
      by blast
    with 1 have "fst (dispatch lib during cmd s) =
            Inr (if known_opcode (opcode cmd)
                 then Some (mk_resp (cmd_no cmd) (opcode cmd) ok d) else None) \<and>
          (\<not> ok \<longrightarrow> d = [])"
      by (simp add: fst_dispatch known_opcode_def)
    then show ?thesis by blast
  next
    case 2
    from move_shape [of lib during cmd s] obtain ok where
      "fst (move lib during cmd s) = Inr (mk_resp (cmd_no cmd) (opcode cmd) ok [])"
      by blast
    with 2 have "fst (dispatch lib during cmd s) =
            Inr (if known_opcode (opcode cmd)
                 then Some (mk_resp (cmd_no cmd) (opcode cmd) ok []) else None) \<and>
          (\<not> ok \<longrightarrow> [] = ([] :: string list))"
      by (simp add: fst_dispatch known_opcode_def)
    then show ?thesis by blast
  next
    case 3
    from measure_distance_shape [of cmd s] obtain ok d where
      "fst (measure_distance cmd s) = Inr (mk_resp (cmd_no cmd) (opcode cmd) ok d)"
      "\<not> ok \<longrightarrow> d = []"
      by blast
    with 3 have "fst (dispatch lib during cmd s) =
            Inr (if known_opcode (opcode cmd)
                 then Some (mk_resp (cmd_no cmd) (opcode cmd) ok d) else None) \<and>
          (\<not> ok \<longrightarrow> d = [])"
      by (simp add: fst_dispatch known_opcode_def)
    then show ?thesis by blast
  next
    case 4
    from light_eye_shape [of lib cmd s] obtain ok where
      "fst (light_eye lib cmd s) = Inr (mk_resp (cmd_no cmd) (opcode cmd) ok [])"
      by blast
    with 4 have "fst (dispatch lib during cmd s) =
            Inr (if known_opcode (opcode cmd)
                 then Some (mk_resp (cmd_no cmd) (opcode cmd) ok []) else None) \<and>
          (\<not> ok \<longrightarrow> [] = ([] :: string list))"
      by (simp add: fst_dispatch known_opcode_def)
    then show ?thesis by blast
  next
    case 5
    then have "fst (dispatch lib during cmd s) =
            Inr (if known_opcode (opcode cmd)
                 then Some (mk_resp (cmd_no cmd) (opcode cmd) False []) else None)"
      by (auto simp: fst_dispatch known_opcode_def)
    then show ?thesis by blast
  qed
qed

lemma rejected_detect_color:
  "isl (float_param lib (params cmd) 0) \<Longrightarrow>
   fst (detect_color lib during cmd s) = Inr (mk_resp (cmd_no cmd) (opcode cmd) False [])"
  by (cases "float_param lib (params cmd) 0") (simp_all add: detect_color_def Let_def)

lemma rejected_light_eye:
  "isl (light_eye_args lib cmd) \<Longrightarrow>
   fst (light_eye lib cmd s) = Inr (mk_resp (cmd_no cmd) (opcode cmd) False [])"
  by (cases "light_eye_args lib cmd") (simp_all add: light_eye_def light_eye_body_def)

lemma rejected_move:
  assumes "case item (params cmd) 0 of
           Inl e \<Rightarrow> True
         | Inr p0 \<Rightarrow>
             (case RaspiCarMoveOp_of p0 of
                Inl e \<Rightarrow> True
              | Inr move_op \<Rightarrow>
                  move_op \<noteq> STOP \<and>
                  (isl (float_param lib (params cmd) 1) \<or> isl (float_param lib (params cmd) 2)))"
  shows "fst (move lib during cmd s) = Inr (mk_resp (cmd_no cmd) (opcode cmd) False [])"
proof -
  have "\<exists>e. move_body lib during cmd s = (Inl e, s)"
    using assms
    by (auto simp: move_body_def isl_def split: sum.splits)
  then show ?thesis
    by (auto simp: move_def)
qed

lemma bus_down_xfer: "bus_down s \<Longrightarrow> \<exists>s'. bus_xfer c s = (Inl OSError, s')"
  by (auto simp: bus_down_def bus_xfer_def split: list.splits)

lemma bus_down_measure_distance:
  assumes "bus_down s"
  shows "fst (measure_distance cmd s) = Inr (mk_resp (cmd_no cmd) (opcode cmd) False [])"
proof -
  have "bus_down (s\<lparr>i2c_lock := True\<rparr>)"
    using assms by (simp add: bus_down_def)
  from bus_down_xfer [OF this, of "WriteByte DISTANCE_SENSOR_I2C_ADDR 1"]
  obtain s' where "bus_xfer (WriteByte DISTANCE_SENSOR_I2C_ADDR 1) (s\<lparr>i2c_lock := True\<rparr>) =
      (Inl OSError, s')"
    by blast
  then show ?thesis
    by (simp add: measure_distance_def measure_distance_body_def)
qed

lemma bus_down_color_begin:
  assumes "bus_down s"
  shows "\<exists>e s'. color_begin exp_time s = (Inl e, s') \<or> color_begin exp_time s = (Inr None, s')"
proof (cases "integ_val_of exp_time")
  case (Inl e)
  then show ?thesis
    by (simp add: color_begin_def)
next
  case (Inr v)
  let ?s0 = "s\<lparr>events := events s @ [False], i2c_lock := True\<rparr>"
  have "bus_down ?s0"
    using assms by (simp add: bus_down_def)
  from bus_down_xfer [OF this, of "WriteByteData COLOR_SENSOR_I2C_ADDR 0 0x8C"]
  obtain s' where "bus_xfer (WriteByteData COLOR_SENSOR_I2C_ADDR 0 0x8C) ?s0 = (Inl OSError, s')"
    by blast
  then have "color_begin exp_time s = (Inr None, s'\<lparr>i2c_lock := False\<rparr>)"
    using Inr by (simp add: color_begin_def new_event_def color_config_def)
  then show ?thesis
    by blast
qed

lemma bus_down_detect_color:
  assumes "bus_down s"
  shows "fst (detect_color lib during cmd s) = Inr (mk_resp (cmd_no cmd) (opcode cmd) False [])"
proof (cases "float_param lib (params cmd) 0")
  case (Inl e)
  then show ?thesis
    by (simp add: rejected_detect_color)
next
  case (Inr exp_time)
  have "bus_down (s\<lparr>color_sensor_lock := True\<rparr>)"
    using assms by (simp add: bus_down_def)
  from bus_down_color_begin [OF this, of exp_time] Inr show ?thesis
    by (auto simp: detect_color_def get_color_sensor_val_def Let_def)
qed

lemma dispatch_failure:
  assumes "params_rejected lib cmd \<or>
           (bus_down s \<and> opcode cmd \<in> {''measure-distance'', ''detect-color''})"
  shows "fst (dispatch lib during cmd s) = Inr (Some (mk_resp (cmd_no cmd) (opcode cmd) False []))"
  using assms
  by (auto simp: fst_dispatch params_rejected_def rejected_detect_color rejected_light_eye
        rejected_move bus_down_measure_distance bus_down_detect_color
        split: if_splits)

lemma bus_down_iff: "bus_down s \<longleftrightarrow> \<not> acks 1 s"
  by (cases "i2c_replies s"; cases "hd (i2c_replies s)")
     (auto simp: bus_down_def acks_def)

lemma bus_xfer_acks:
  "acks (Suc n) s \<Longrightarrow>
   \<exists>bs s'. bus_xfer c s = (Inr bs, s') \<and> acks n s' \<and> i2c_lock s' = i2c_lock s"
  by (cases "i2c_replies s"; cases "hd (i2c_replies s)")
     (auto simp: acks_def bus_xfer_def)

lemma bus_xfer_no_acks:
  "\<not> acks (Suc n) s \<Longrightarrow>
   (\<exists>s'. bus_xfer c s = (Inl OSError, s')) \<or>
   (\<exists>bs s'. bus_xfer c s = (Inr bs, s') \<and> \<not> acks n s')"
  by (cases "i2c_replies s"; cases "hd (i2c_replies s)")
     (auto simp: acks_def bus_xfer_def)

lemma bus_xfer_no_ack:
  "\<not> acks (Suc 0) s \<Longrightarrow> \<exists>s'. bus_xfer c s = (Inl OSError, s')"
  by (cases "i2c_replies s"; cases "hd (i2c_replies s)")
     (auto simp: acks_def bus_xfer_def)

lemma sleep_acks [simp]: "acks n (sleep t s) = acks n s"
  by (simp add: acks_def sleep_def)

lemma measure_distance_body_transport:
  assumes "\<not> acks 2 s"
  shows "\<exists>s'. measure_distance_body s = (Inl OSError, s')"
proof -
  have n: "\<not> acks (Suc (Suc 0)) s"
    using assms by (simp add: numeral_2_eq_2)
  from bus_xfer_no_acks [OF n, of "WriteByte DISTANCE_SENSOR_I2C_ADDR 1"]
  show ?thesis
  proof (elim disjE exE conjE)
    fix s'
    assume "bus_xfer (WriteByte DISTANCE_SENSOR_I2C_ADDR 1) s = (Inl OSError, s')"
    then show ?thesis
      by (simp add: measure_distance_body_def)
  next
    fix bs s'
    assume w: "bus_xfer (WriteByte DISTANCE_SENSOR_I2C_ADDR 1) s = (Inr bs, s')"
      and "\<not> acks (Suc 0) s'"
    then have "\<not> acks (Suc 0) (sleep (1 / 5) s')"
      by simp
    from bus_xfer_no_ack [OF this, of "ReadBlock DISTANCE_SENSOR_I2C_ADDR 0 3"]
    obtain s'' where "bus_xfer (ReadBlock DISTANCE_SENSOR_I2C_ADDR 0 3) (sleep (1 / 5) s') =
        (Inl OSError, s'')"
      by blast
    with w show ?thesis
      by (simp add: measure_distance_body_def)
  qed
qed

lemma transport_measure_distance:
  assumes "\<not> acks 2 s"
  shows "fst (measure_distance cmd s) = Inr (mk_resp (cmd_no cmd) (opcode cmd) False [])"
proof -
  have "\<not> acks 2 (s\<lparr>i2c_lock := True\<rparr>)"
    using assms by (simp add: acks_def)
  from measure_distance_body_transport [OF this] show ?thesis
    by (auto simp: measure_distance_def)
qed

lemma color_config_transport:
  assumes "\<not> acks 4 s"
  shows "\<exists>s'. color_config integ_val event s = (Inl OSError, s')"
proof -
  let ?w1 = "WriteByteData COLOR_SENSOR_I2C_ADDR 0 0x8C"
  let ?w2 = "WriteByteData COLOR_SENSOR_I2C_ADDR 1 (drop_bit 8 integ_val)"
  let ?w3 = "WriteByteData COLOR_SENSOR_I2C_ADDR 2 (integ_val AND 0xFF)"
  let ?w4 = "WriteByteData COLOR_SENSOR_I2C_ADDR 0 0x0C"
  have n: "\<not> acks (Suc (Suc (Suc (Suc 0)))) s"
    using assms by (simp add: eval_nat_numeral)
  consider s1 where "bus_xfer ?w1 s = (Inl OSError, s1)"
    | b1 s1 where "bus_xfer ?w1 s = (Inr b1, s1)" "\<not> acks (Suc (Suc (Suc 0))) s1"
    using bus_xfer_no_acks [OF n, of ?w1] by blast
  then show ?thesis
  proof cases
    case 1
    then show ?thesis by (simp add: color_config_def)
  next
    case 2
    consider s2 where "bus_xfer ?w2 s1 = (Inl OSError, s2)"
      | b2 s2 where "bus_xfer ?w2 s1 = (Inr b2, s2)" "\<not> acks (Suc (Suc 0)) s2"
      using bus_xfer_no_acks [OF 2(2), of ?w2] by blast
    then show ?thesis
    proof cases
      case 1
      with 2(1) show ?thesis by (simp add: color_config_def)
    next
      case b: 2
      consider s3 where "bus_xfer ?w3 s2 = (Inl OSError, s3)"
        | b3 s3 where "bus_xfer ?w3 s2 = (Inr b3, s3)" "\<not> acks (Suc 0) s3"
        using bus_xfer_no_acks [OF b(2), of ?w3] by blast
      then show ?thesis
      proof cases
        case 1
        with 2(1) b(1) show ?thesis by (simp add: color_config_def)
      next
        case c: 2
        from bus_xfer_no_ack [OF c(2), of ?w4]
        obtain s4 where "bus_xfer ?w4 s3 = (Inl OSError, s4)"
          by blast
        with 2(1) b(1) c(1) show ?thesis by (simp add: color_config_def)
      qed
    qed
  qed
qed

lemma transport_color_config:
  assumes "\<not> acks 4 s"
  shows "fst (detect_color lib during cmd s) = Inr (mk_resp (cmd_no cmd) (opcode cmd) False [])"
proof (cases "float_param lib (params cmd) 0")
  case (Inl e)
  then show ?thesis
    by (simp add: rejected_detect_color)
next
  case (Inr exp_time)
  let ?s1 = "s\<lparr>color_sensor_lock := True\<rparr>"
  show ?thesis
  proof (cases "integ_val_of exp_time")
    case (Inl e)
    then show ?thesis
      using Inr by (simp add: detect_color_def get_color_sensor_val_def color_begin_def Let_def)
  next
    case iv: (Inr integ_val)
    let ?t = "?s1\<lparr>events := events ?s1 @ [False], i2c_lock := True\<rparr>"
    have "\<not> acks 4 ?t"
      using assms by (simp add: acks_def)
    from color_config_transport [OF this, of integ_val "length (events ?s1)"]
    obtain s' where "color_config integ_val (length (events ?s1)) ?t = (Inl OSError, s')"
      by blast
    then have "color_begin exp_time ?s1 = (Inr None, s'\<lparr>i2c_lock := False\<rparr>)"
      using iv by (simp add: color_begin_def new_event_def)
    then show ?thesis
      using Inr by (simp add: detect_color_def get_color_sensor_val_def Let_def)
  qed
qed

lemma transport_color_read:
  assumes "float_param lib (params cmd) 0 = Inr exp_time"
    and "color_begin exp_time (s\<lparr>color_sensor_lock := True\<rparr>) = (Inr (Some event), s1)"
    and "event_wait lib during event (color_wait_time exp_time) s1 = (Inr (), w)"
    and "bus_down w"
  shows "fst (detect_color lib during cmd s) = Inr (mk_resp (cmd_no cmd) (opcode cmd) False [])"
proof -
  have "bus_down (w\<lparr>i2c_lock := True\<rparr>)"
    using assms(4) by (simp add: bus_down_def)
  from bus_down_xfer [OF this, of "ReadBlock COLOR_SENSOR_I2C_ADDR 3 8"]
  obtain s' where "bus_xfer (ReadBlock COLOR_SENSOR_I2C_ADDR 3 8) (w\<lparr>i2c_lock := True\<rparr>) =
      (Inl OSError, s')"
    by blast
  then have "color_finish w = (Inr [], s'\<lparr>i2c_lock := False\<rparr>)"
    by (simp add: color_finish_def)
  then show ?thesis
    using assms(1-3) by (simp add: detect_color_def get_color_sensor_val_def Let_def)
qed

lemma dispatch_transport_failure:
  assumes "(opcode cmd = ''measure-distance'' \<and> \<not> acks 2 s) \<or>
           (opcode cmd = ''detect-color'' \<and> \<not> acks 4 s) \<or>
           (opcode cmd = ''detect-color'' \<and>
            float_param lib (params cmd) 0 = Inr exp_time \<and>
            color_begin exp_time (s\<lparr>color_sensor_lock := True\<rparr>) = (Inr (Some event), s1) \<and>
            event_wait lib during event (color_wait_time exp_time) s1 = (Inr (), w) \<and>
            bus_down w)"
  shows "fst (dispatch lib during cmd s) = Inr (Some (mk_resp (cmd_no cmd) (opcode cmd) False []))"
  using assms
  by (auto simp: fst_dispatch transport_measure_distance transport_color_config
        transport_color_read)

lemma process_result:
  assumes "undisturbed oid during"
  shows "fst (process lib during oid cmd s) =
           (case fst (dispatch lib during cmd (s\<lparr>activeCmds := insert oid (activeCmds s)\<rparr>)) of
              Inl e \<Rightarrow> Inl e
            | Inr None \<Rightarrow> Inr (mk_resp (cmd_no cmd) (opcode cmd) False [])
            | Inr (Some resp) \<Rightarrow> Inr resp) \<and>
         oid \<notin> activeCmds (snd (process lib during oid cmd s))"
proof -
  let ?s0 = "s\<lparr>activeCmds := insert oid (activeCmds s)\<rparr>"
  obtain r s1 where d: "dispatch lib during cmd ?s0 = (r, s1)"
    by (cases "dispatch lib during cmd ?s0")
  have m: "oid \<in> activeCmds s1"
    using dispatch_activeD [OF d assms] by simp
  show ?thesis
    using d m by (simp add: process_def Let_def split: sum.splits option.splits)
qed

text \<open>
  Claim C2.  Provided no other thread removes this command object from the in-flight
  registry, \<open>process\<close> returns a response (it does not raise) and the command is not in
  the registry afterwards.  Every response with success = false has empty data.  The
  response is a failure
  \<^item> for an opcode that is not one of the four;
  \<^item> for a command whose parameters are rejected (a parse error);
  \<^item> for every transport error: a measure-distance command whose write or read raises
    (the bus does not acknowledge its next two transactions), a detect-color command one
    of whose four register writes raises (the bus does not acknowledge its next four
    transactions), and a detect-color command that gets as far as the final block read,
    waking up in state \<open>w\<close>, where that read raises.
\<close>

theorem process_never_raises:
  assumes "undisturbed oid during"
  shows "\<exists>resp s'. process lib during oid cmd s = (Inr resp, s') \<and>
           oid \<notin> activeCmds s' \<and>
           (\<not> is_successful resp \<longrightarrow> data resp = []) \<and>
           (\<not> known_opcode (opcode cmd) \<longrightarrow> \<not> is_successful resp) \<and>
           (params_rejected lib cmd \<longrightarrow> \<not> is_successful resp) \<and>
           (bus_down s \<and> opcode cmd \<in> {''measure-distance'', ''detect-color''} \<longrightarrow>
              \<not> is_successful resp) \<and>
           (opcode cmd = ''measure-distance'' \<and> \<not> acks 2 s \<longrightarrow> \<not> is_successful resp) \<and>
           (opcode cmd = ''detect-color'' \<and> \<not> acks 4 s \<longrightarrow> \<not> is_successful resp) \<and>
           (opcode cmd = ''detect-color'' \<and>
            float_param lib (params cmd) 0 = Inr exp_time \<and>
            color_begin exp_time
              (s\<lparr>activeCmds := insert oid (activeCmds s), color_sensor_lock := True\<rparr>) =
              (Inr (Some event), s1) \<and>
            event_wait lib during event (color_wait_time exp_time) s1 = (Inr (), w) \<and>
            bus_down w \<longrightarrow> \<not> is_successful resp)"
proof -
  let ?s0 = "s\<lparr>activeCmds := insert oid (activeCmds s)\<rparr>"
  let ?p = "process lib during oid cmd s"
  note pr = process_result [OF assms, of lib cmd s]
  from dispatch_shape [of lib during cmd ?s0] obtain ok d where
    ds: "fst (dispatch lib during cmd ?s0) =
            Inr (if known_opcode (opcode cmd)
                 then Some (mk_resp (cmd_no cmd) (opcode cmd) ok d) else None)"
    and e: "\<not> ok \<longrightarrow> d = []"
    by blast
  define resp where "resp = (if known_opcode (opcode cmd)
      then mk_resp (cmd_no cmd) (opcode cmd) ok d else mk_resp (cmd_no cmd) (opcode cmd) False [])"
  have r: "fst ?p = Inr resp"
    using pr ds by (simp add: resp_def)
  then have 1: "?p = (Inr resp, snd ?p)"
    by (simp add: prod_eq_iff)
  have 2: "oid \<notin> activeCmds (snd ?p)"
    using pr by simp
  have 3: "\<not> is_successful resp \<longrightarrow> data resp = []"
    using e by (simp add: resp_def mk_resp_def)
  have 4: "\<not> known_opcode (opcode cmd) \<longrightarrow> \<not> is_successful resp"
    by (simp add: resp_def mk_resp_def)
  have f: "\<not> is_successful resp"
    if "params_rejected lib cmd \<or>
        (bus_down s \<and> opcode cmd \<in> {''measure-distance'', ''detect-color''})"
  proof -
    have "params_rejected lib cmd \<or>
        (bus_down ?s0 \<and> opcode cmd \<in> {''measure-distance'', ''detect-color''})"
      using that by (simp add: bus_down_def)
    from dispatch_failure [OF this, of during] pr r show ?thesis
      by (simp add: mk_resp_def)
  qed
  have g: "\<not> is_successful resp"
    if "(opcode cmd = ''measure-distance'' \<and> \<not> acks 2 s) \<or>
        (opcode cmd = ''detect-color'' \<and> \<not> acks 4 s) \<or>
        (opcode cmd = ''detect-color'' \<and>
         float_param lib (params cmd) 0 = Inr exp_time \<and>
         color_begin exp_time (?s0\<lparr>color_sensor_lock := True\<rparr>) = (Inr (Some event), s1) \<and>
         event_wait lib during event (color_wait_time exp_time) s1 = (Inr (), w) \<and>
         bus_down w)"
  proof -
    have "(opcode cmd = ''measure-distance'' \<and> \<not> acks 2 ?s0) \<or>
        (opcode cmd = ''detect-color'' \<and> \<not> acks 4 ?s0) \<or>
        (opcode cmd = ''detect-color'' \<and>
         float_param lib (params cmd) 0 = Inr exp_time \<and>
         color_begin exp_time (?s0\<lparr>color_sensor_lock := True\<rparr>) = (Inr (Some event), s1) \<and>
         event_wait lib during event (color_wait_time exp_time) s1 = (Inr (), w) \<and>
         bus_down w)"
      using that by (simp add: acks_def)
    from dispatch_transport_failure [OF this] pr r show ?thesis
      by (simp add: mk_resp_def)
  qed
  have 5: "params_rejected lib cmd \<longrightarrow> \<not> is_successful resp"
    using f by blast
  have 6: "bus_down s \<and> opcode cmd \<in> {''measure-distance'', ''detect-color''} \<longrightarrow>
              \<not> is_successful resp"
    using f by blast
  have 7: "opcode cmd = ''measure-distance'' \<and> \<not> acks 2 s \<longrightarrow> \<not> is_successful resp"
    using g by blast
  have 8: "opcode cmd = ''detect-color'' \<and> \<not> acks 4 s \<longrightarrow> \<not> is_successful resp"
    using g by blast
  have 9: "opcode cmd = ''detect-color'' \<and>
            float_param lib (params cmd) 0 = Inr exp_time \<and>
            color_begin exp_time
              (s\<lparr>activeCmds := insert oid (activeCmds s), color_sensor_lock := True\<rparr>) =
              (Inr (Some event), s1) \<and>
            event_wait lib during event (color_wait_time exp_time) s1 = (Inr (), w) \<and>
            bus_down w \<longrightarrow> \<not> is_successful resp"
    using g by blast
  show ?thesis
    by (intro exI [of _ resp] exI [of _ "snd ?p"] conjI) (rule 1 2 3 4 5 6 7 8 9)+
qed

text \<open>
  An unknown opcode; a move command with an unknown operation; a distance measurement on
  a bus that does not answer, and one whose read fails; a colour detection whose third
  register write fails, and one whose final read fails.
\<close>

theorem process_never_raises_witness:
  "(\<exists>resp s'. process declib id 1 \<lparr>cmd_no = ''9'', opcode = ''jump'', params = []\<rparr> (init []) =
       (Inr resp, s') \<and> 1 \<notin> activeCmds s' \<and> \<not> is_successful resp \<and> data resp = []) \<and>
   (\<exists>resp s'. process declib id 1 \<lparr>cmd_no = ''9'', opcode = ''move'', params = [''up'']\<rparr> (init []) =
       (Inr resp, s') \<and> 1 \<notin> activeCmds s' \<and> \<not> is_successful resp \<and> data resp = []) \<and>
   (\<exists>resp s'. process declib id 1 \<lparr>cmd_no = ''9'', opcode = ''measure-distance'', params = []\<rparr>
       (init []) =
       (Inr resp, s') \<and> 1 \<notin> activeCmds s' \<and> \<not> is_successful resp \<and> data resp = []) \<and>
   (\<exists>resp s'. process declib id 1 \<lparr>cmd_no = ''9'', opcode = ''measure-distance'', params = []\<rparr>
       (init [Ack [], Nack]) =
       (Inr resp, s') \<and> 1 \<notin> activeCmds s' \<and> \<not> is_successful resp \<and> data resp = []) \<and>
   (\<exists>resp s'. process declib id 1 \<lparr>cmd_no = ''9'', opcode = ''detect-color'', params = [''0'']\<rparr>
       (init [Ack [], Ack [], Nack]) =
       (Inr resp, s') \<and> 1 \<notin> activeCmds s' \<and> \<not> is_successful resp \<and> data resp = []) \<and>
   (\<exists>resp s'. process declib id 1 \<lparr>cmd_no = ''9'', opcode = ''detect-color'', params = [''0'']\<rparr>
       (init [Ack [], Ack [], Ack [], Ack [], Nack]) =
       (Inr resp, s') \<and> 1 \<notin> activeCmds s' \<and> \<not> is_successful resp \<and> data resp = [])"
proof -
  let ?jump = "\<lparr>cmd_no = ''9'', opcode = ''jump'', params = []\<rparr>"
  let ?up = "\<lparr>cmd_no = ''9'', opcode = ''move'', params = [''up'']\<rparr>"
  let ?dist = "\<lparr>cmd_no = ''9'', opcode = ''measure-distance'', params = []\<rparr>"
  let ?color = "\<lparr>cmd_no = ''9'', opcode = ''detect-color'', params = [''0'']\<rparr>"
  let ?r = "init [Ack [], Ack [], Ack [], Ack [], Nack]"
  let ?s1 = "(init [Nack])
      \<lparr>color_sensor_lock := True, get_color_event := Some 0, events := [False],
       activeCmds := {1},
       trace := [WriteByteData 42 0 140, WriteByteData 42 1 0, WriteByteData 42 2 0,
                 WriteByteData 42 0 12]\<rparr>"
  let ?w = "?s1\<lparr>trace := trace ?s1 @ [Wait 0 (Fin 0)]\<rparr>"
  have u: "undisturbed 1 id"
    by (simp add: undisturbed_def)
  have k: "\<not> known_opcode (opcode ?jump)"
    by (simp add: known_opcode_def)
  have p: "params_rejected declib ?up"
    by (simp add: params_rejected_def item_def RaspiCarMoveOp_of_def)
  have b: "bus_down (init []) \<and> opcode ?dist \<in> {''measure-distance'', ''detect-color''}"
    by (simp add: bus_down_def init_def)
  have m: "opcode ?dist = ''measure-distance'' \<and> \<not> acks 2 (init [Ack [], Nack])"
    by (simp add: acks_def init_def eval_nat_numeral)
  have c: "opcode ?color = ''detect-color'' \<and> \<not> acks 4 (init [Ack [], Ack [], Nack])"
    by (simp add: acks_def init_def eval_nat_numeral)
  have h1: "float_param declib (params ?color) 0 = Inr (Fin 0)"
    by code_simp
  have h2: "color_begin (Fin 0)
              (?r\<lparr>activeCmds := insert 1 (activeCmds ?r), color_sensor_lock := True\<rparr>) =
            (Inr (Some 0), ?s1)"
    by code_simp
  have h3: "event_wait declib id 0 (color_wait_time (Fin 0)) ?s1 = (Inr (), ?w)"
    by code_simp
  have h4: "bus_down ?w"
    by (simp add: bus_down_def init_def)
  have f: "opcode ?color = ''detect-color'' \<and>
           float_param declib (params ?color) 0 = Inr (Fin 0) \<and>
           color_begin (Fin 0)
              (?r\<lparr>activeCmds := insert 1 (activeCmds ?r), color_sensor_lock := True\<rparr>) =
            (Inr (Some 0), ?s1) \<and>
           event_wait declib id 0 (color_wait_time (Fin 0)) ?s1 = (Inr (), ?w) \<and>
           bus_down ?w"
    using h1 h2 h3 h4 by simp
  have 1: "\<exists>resp s'. process declib id 1 ?jump (init []) =
       (Inr resp, s') \<and> 1 \<notin> activeCmds s' \<and> \<not> is_successful resp \<and> data resp = []"
    using process_never_raises [OF u, of declib ?jump "init []"] k by blast
  have 2: "\<exists>resp s'. process declib id 1 ?up (init []) =
       (Inr resp, s') \<and> 1 \<notin> activeCmds s' \<and> \<not> is_successful resp \<and> data resp = []"
    using process_never_raises [OF u, of declib ?up "init []"] p by blast
  have 3: "\<exists>resp s'. process declib id 1 ?dist (init []) =
       (Inr resp, s') \<and> 1 \<notin> activeCmds s' \<and> \<not> is_successful resp \<and> data resp = []"
    using process_never_raises [OF u, of declib ?dist "init []"] b by blast
  have 4: "\<exists>resp s'. process declib id 1 ?dist (init [Ack [], Nack]) =
       (Inr resp, s') \<and> 1 \<notin> activeCmds s' \<and> \<not> is_successful resp \<and> data resp = []"
    using process_never_raises [OF u, of declib ?dist "init [Ack [], Nack]"] m by blast
  have 5: "\<exists>resp s'. process declib id 1 ?color (init [Ack [], Ack [], Nack]) =
       (Inr resp, s') \<and> 1 \<notin> activeCmds s' \<and> \<not> is_successful resp \<and> data resp = []"
    using process_never_raises [OF u, of declib ?color "init [Ack [], Ack [], Nack]"] c by blast
  have 6: "\<exists>resp s'. process declib id 1 ?color ?r =
       (Inr resp, s') \<and> 1 \<notin> activeCmds s' \<and> \<not> is_successful resp \<and> data resp = []"
    using process_never_raises [OF u, of declib ?color ?r "Fin 0" 0 ?s1 ?w] f by blast
  from 1 2 3 4 5 6 show ?thesis
    by (intro conjI)
qed

text \<open>
  Claim C8.  Provided no other thread removes this command object from the in-flight
  registry, \<open>process\<close> returns one response, whose \<open>cmd_no\<close> and \<open>opcode\<close> are those
  of the command, whatever the opcode and whether it succeeded; the response line starts
  with the \<open>cmd_no\<close>, the success flag and the \<open>opcode\<close>.
\<close>

theorem process_echoes:
  assumes "undisturbed oid during"
  shows "\<exists>resp s'. process lib during oid cmd s = (Inr resp, s') \<and>
           resp_cmd_no resp = cmd_no cmd \<and> resp_opcode resp = opcode cmd \<and>
           resp_str resp =
             foldl (\<lambda>res val. res @ '','' @ val)
               (cmd_no cmd @ '','' @ str_bool (is_successful resp) @ '','' @ opcode cmd)
               (data resp)"
proof -
  let ?s0 = "s\<lparr>activeCmds := insert oid (activeCmds s)\<rparr>"
  let ?p = "process lib during oid cmd s"
  note pr = process_result [OF assms, of lib cmd s]
  from dispatch_shape [of lib during cmd ?s0] obtain ok d where
    ds: "fst (dispatch lib during cmd ?s0) =
            Inr (if known_opcode (opcode cmd)
                 then Some (mk_resp (cmd_no cmd) (opcode cmd) ok d) else None)"
    by blast
  define resp where "resp = (if known_opcode (opcode cmd)
      then mk_resp (cmd_no cmd) (opcode cmd) ok d else mk_resp (cmd_no cmd) (opcode cmd) False [])"
  have "fst ?p = Inr resp"
    using pr ds by (simp add: resp_def)
  then have 1: "?p = (Inr resp, snd ?p)"
    by (simp add: prod_eq_iff)
  have 2: "resp_cmd_no resp = cmd_no cmd \<and> resp_opcode resp = opcode cmd"
    by (simp add: resp_def mk_resp_def)
  then have 3: "resp_str resp =
             foldl (\<lambda>res val. res @ '','' @ val)
               (cmd_no cmd @ '','' @ str_bool (is_successful resp) @ '','' @ opcode cmd)
               (data resp)"
    by (simp add: resp_str_def)
  from 1 2 3 show ?thesis
    by blast
qed

theorem process_echoes_witness:
  "\<exists>resp s'. process declib id 4 \<lparr>cmd_no = ''7'', opcode = ''measure-distance'', params = []\<rparr>
                (init [Ack [], Ack [0, 1, 0]]) = (Inr resp, s') \<and>
     resp_cmd_no resp = ''7'' \<and> resp_opcode resp = ''measure-distance''"
proof -
  have u: "undisturbed 4 id"
    by (simp add: undisturbed_def)
  show ?thesis
    using process_echoes [OF u, of declib
        "\<lparr>cmd_no = ''7'', opcode = ''measure-distance'', params = []\<rparr>"
        "init [Ack [], Ack [0, 1, 0]]"]
    by auto
qed

section \<open>close: the lamps\<close>

lemma close_loop_idle: "activeCmds s = {} \<Longrightarrow> close_loop count others s = s"
  by (simp add: close_loop.simps)

lemma close_right_eye_off:
  assumes "fst (close others s) = Inr ()"
  shows "right_eye (snd (close others s)) = \<lparr>red = False, green = False, blue = False\<rparr> \<and>
         left_eye (snd (close others s)) = left_eye (close_loop 0 others s)"
proof -
  let ?s = "close_loop 0 others s"
  have "\<not> led_fault ?s"
    using assms
    by (auto simp: close_def close_leds_def eye_flags_def led_write_def)
  then show ?thesis
    by (simp add: close_def close_leds_def eye_flags_def led_write_def set_led_def i2c_close_def)
qed

text \<open>
  Claim C1 says that all six lamps are off when \<open>close\<close> returns.  The loop of \<open>close\<close>
  visits the lamps of the right eye twice and those of the left eye never
  (\<open>close_right_eye_off\<close>: the left eye keeps what it had after the drain loop).  After
  \<open>light-eye,left,1,0,0\<close> on a fresh processor, \<open>close\<close> returns and the red lamp of
  the left eye is still on.
\<close>

theorem close_leaves_left_eye_on:
  "fst (close others
          (snd (light_eye declib
                  \<lparr>cmd_no = ''1'', opcode = ''light-eye'', params = [''left'', ''1'', ''0'', ''0'']\<rparr>
                  (init [])))) = Inr () \<and>
   red (left_eye (snd (close others
          (snd (light_eye declib
                  \<lparr>cmd_no = ''1'', opcode = ''light-eye'', params = [''left'', ''1'', ''0'', ''0'']\<rparr>
                  (init []))))))"
proof -
  let ?lit = "(init [])\<lparr>left_eye := \<lparr>red = True, green = False, blue = False\<rparr>,
      trace := [LedSet LeftEye Red True, LedSet LeftEye Green False, LedSet LeftEye Blue False]\<rparr>"
  have l: "snd (light_eye declib
                  \<lparr>cmd_no = ''1'', opcode = ''light-eye'', params = [''left'', ''1'', ''0'', ''0'']\<rparr>
                  (init [])) = ?lit"
    by code_simp
  have i: "close_loop 0 others ?lit = ?lit"
    by (rule close_loop_idle) (simp add: init_def)
  have c: "close others ?lit =
      (case light_leds close_leds ?lit of
         (Inl e, s1) \<Rightarrow> (Inl e, s1)
       | (Inr u, s1) \<Rightarrow> (Inr (), i2c_close s1))"
    by (simp only: close_def i)
  have "fst (close others ?lit) = Inr () \<and> red (left_eye (snd (close others ?lit)))"
    unfolding c
    by (simp add: close_leds_def eye_flags_def led_write_def set_led_def i2c_close_def init_def)
  then show ?thesis
    by (simp only: l)
qed

section \<open>detect-color: the wait\<close>

lemma integ_val_clamped: "\<exists>n. integ_val_of x = Inr n \<and> 0 \<le> n \<and> n \<le> 62857"
proof (cases x)
  case (Fin r)
  consider "r < 0" | "0 \<le> r" "r \<le> 11" | "11 < r"
    by linarith
  then show ?thesis
  proof cases
    case 1
    with Fin show ?thesis
      by (simp add: integ_val_of_def exp_time_us_def py_min_def py_max_def)
  next
    case 2
    then have "0 \<le> 1000000 * r / 175" and "1000000 * r / 175 \<le> 1000000 * 11 / 175"
      by simp_all
    then have "0 \<le> \<lfloor>1000000 * r / 175\<rfloor>" and "\<lfloor>1000000 * r / 175\<rfloor> \<le> \<lfloor>1000000 * 11 / (175::rat)\<rfloor>"
      by (simp_all add: floor_mono)
    with Fin 2 show ?thesis
      by (simp add: integ_val_of_def exp_time_us_def py_min_def py_max_def)
  next
    case 3
    with Fin show ?thesis
      by (simp add: integ_val_of_def exp_time_us_def py_min_def py_max_def)
  qed
qed (simp_all add: integ_val_of_def exp_time_us_def py_min_def py_max_def)

text \<open>
  Claim C4 says that the wait before the readout is bounded by \<open>4 * 11 * 1.05\<close> seconds
  for an exposure parameter above 11.  The register value is computed from the clamped
  exposure time (\<open>integ_val_clamped\<close>; 12 s gives the same register value as 11 s), but
  the timeout handed to \<open>event.wait\<close> is computed from the parameter as it came:
  for \<open>detect-color,12\<close> the trace shows a wait of \<open>252/5 = 50.4\<close> seconds, above
  \<open>231/5 = 46.2\<close>.
\<close>

theorem detect_color_wait_unclamped:
  "integ_val_of (Fin 12) = integ_val_of (Fin 11) \<and>
   color_wait_time (Fin 11) = Fin (231 / 5) \<and>
   color_wait_time (Fin 12) = Fin (252 / 5) \<and>
   flt (color_wait_time (Fin 11)) (color_wait_time (Fin 12)) \<and>
   trace (snd (detect_color declib id
                 \<lparr>cmd_no = ''3'', opcode = ''detect-color'', params = [''12'']\<rparr>
                 (init [Ack [], Ack [], Ack [], Ack [], Ack [0, 0, 0, 0, 0, 0, 0, 0]]))) =
     [WriteByteData 42 0 140, WriteByteData 42 1 245, WriteByteData 42 2 137,
      WriteByteData 42 0 12, Wait 0 (Fin (252 / 5)), ReadBlock 42 3 8]"
proof (intro conjI)
  show "integ_val_of (Fin 12) = integ_val_of (Fin 11)"
    by (simp add: integ_val_of_def exp_time_us_def py_min_def py_max_def)
  show "color_wait_time (Fin 11) = Fin (231 / 5)"
    by (simp add: color_wait_time_def)
  show "color_wait_time (Fin 12) = Fin (252 / 5)"
    by (simp add: color_wait_time_def)
  show "flt (color_wait_time (Fin 11)) (color_wait_time (Fin 12))"
    by (simp add: color_wait_time_def)
  show "trace (snd (detect_color declib id
                 \<lparr>cmd_no = ''3'', opcode = ''detect-color'', params = [''12'']\<rparr>
                 (init [Ack [], Ack [], Ack [], Ack [], Ack [0, 0, 0, 0, 0, 0, 0, 0]]))) =
     [WriteByteData 42 0 140, WriteByteData 42 1 245, WriteByteData 42 2 137,
      WriteByteData 42 0 12, Wait 0 (Fin (252 / 5)), ReadBlock 42 3 8]"
    by code_simp
qed

end
